theory Spec2Isabelle
  imports Complex_Main
begin

section \<open>Data model\<close>

text \<open>
  The rows of the four tables, as both storage layers declare them
  (\<^verbatim>\<open>src/lib/db.ts\<close> through Prisma, the second one through SQL text).
  Timestamps are milliseconds since the epoch, an \<^verbatim>\<open>INTEGER\<close> column holds an
  integer, text is \<^typ>\<open>string\<close>, a nullable column is an \<^typ>\<open>'a option\<close>.
  The \<^verbatim>\<open>id\<close> column of a seat, which no function reads, is left out.
\<close>

datatype SeatStatus = available | held | sold

record SeatRecord =
  show_id :: int
  seat_code :: string
  status :: SeatStatus
  held_by :: "string option"
  hold_until :: "int option"
  buyer_id :: "string option"

record ShowRow =
  sh_id :: int
  sh_title :: string
  sh_starts_at :: int
  sh_rows :: int
  sh_cols :: int
  sh_price :: int

datatype ReceiptType = photo | text_receipt

record OrderRow =
  o_id :: int
  o_user_id :: string
  o_show_id :: int
  o_seats :: string
  o_amount :: int
  o_receipt_type :: ReceiptType
  o_receipt_ref :: string
  o_status :: string
  o_created_at :: int
  o_paid_at :: "int option"
  o_admin_id :: "string option"

text \<open>The value \<^verbatim>\<open>OrderRecord\<close> that \<^verbatim>\<open>approveOrder\<close> and \<^verbatim>\<open>rejectOrder\<close> return.\<close>

record OrderRecord =
  or_id :: int
  or_user_id :: string
  or_show_id :: int
  or_seats :: "string list"
  or_amount :: int
  or_status :: string

record SessionRow =
  us_user_id :: string
  us_state :: "string option"
  us_show_id :: "int option"
  us_seats :: "string option"
  us_total :: "int option"
  us_updated_at :: int

text \<open>
  The database: one list of rows per table, and the last value handed out by the
  \<^verbatim>\<open>SERIAL\<close> sequence of \<^verbatim>\<open>shows.id\<close> and of \<^verbatim>\<open>orders.id\<close>.
\<close>

record db =
  shows_tbl :: "ShowRow list"
  seats :: "SeatRecord list"
  orders :: "OrderRow list"
  user_sessions :: "SessionRow list"
  shows_id_seq :: int
  orders_id_seq :: int

definition empty_db :: db where
  "empty_db = \<lparr>shows_tbl = [], seats = [], orders = [], user_sessions = [],
     shows_id_seq = 0, orders_id_seq = 0\<rparr>"

datatype error =
    SeatNotFound
  | ForeignKeyViolation
  | RecordNotFound
  | InvalidDate
  | DateNotStored
  | InvalidInteger
  | SequenceExhausted
  | MissingNumericField
  | InvalidNumericField
  | NumericFieldBelowMinimum
  | TitleRequired
  | StartsAtRequired
  | StartsAtInvalid
  | Redirect string

datatype ToggleResult = R_sold | R_held | R_available | R_held_by_other

section \<open>Numbers, dates and the platform\<close>

text \<open>
  A JavaScript number: NaN and the two infinities are \<open>NotFinite\<close>, every other
  double is the rational it denotes.
\<close>

datatype JSNumber = NotFinite | Finite rat

text \<open>The values of an \<^verbatim>\<open>INTEGER\<close> column, and the numbers that are such values.\<close>

definition int32 :: "int \<Rightarrow> bool" where
  "int32 n = (- 2147483648 \<le> n \<and> n \<le> 2147483647)"

definition is_int32 :: "rat \<Rightarrow> bool" where
  "is_int32 q = (q = of_int \<lfloor>q\<rfloor> \<and> int32 \<lfloor>q\<rfloor>)"

text \<open>
  What the functions take from the platform they run on, and not from the
  repository:
  \<^item> \<open>fl\<close>, the rounding of a real result to a double (a result beyond the
    largest double is sent beyond every time value of a \<^verbatim>\<open>Date\<close>);
  \<^item> \<open>stores_date\<close>, the time values of valid \<^verbatim>\<open>Date\<close>s that the Prisma
    client and the \<^verbatim>\<open>TIMESTAMP WITH TIME ZONE\<close> column accept;
  \<^item> \<open>trim\<close>, that is \<^verbatim>\<open>String.prototype.trim\<close>;
  \<^item> \<open>parseDate\<close>, the time value of \<^verbatim>\<open>new Date(text)\<close>, \<^term>\<open>None\<close> for an
    invalid \<^verbatim>\<open>Date\<close>.
\<close>

record platform =
  fl :: "rat \<Rightarrow> rat"
  stores_date :: "int \<Rightarrow> bool"
  trim :: "string \<Rightarrow> string"
  parseDate :: "string \<Rightarrow> int option"

text \<open>Doubles hold every whole number up to \<open>2\<^sup>5\<^sup>3\<close> exactly.\<close>

definition exact_on_whole :: "(rat \<Rightarrow> rat) \<Rightarrow> bool" where
  "exact_on_whole f = (\<forall>n::int. \<bar>n\<bar> \<le> 9007199254740992 \<longrightarrow> f (of_int n) = of_int n)"

text \<open>
  \<^verbatim>\<open>new Date(t)\<close>: a time value beyond 8.64e15 milliseconds on either side of the
  epoch gives an invalid \<^verbatim>\<open>Date\<close>, any other is cut to a whole number towards
  zero.
\<close>

definition js_trunc :: "rat \<Rightarrow> int" where
  "js_trunc t = (if 0 \<le> t then \<lfloor>t\<rfloor> else \<lceil>t\<rceil>)"

definition new_Date :: "rat \<Rightarrow> int option" where
  "new_Date t = (if \<bar>t\<bar> \<le> 8640000000000000 then Some (js_trunc t) else None)"

section \<open>JavaScript helpers\<close>

text \<open>\<^verbatim>\<open>Boolean(s)\<close> on a string: the empty string is falsy.\<close>

definition truthy_string :: "string \<Rightarrow> bool" where
  "truthy_string s = (s \<noteq> [])"

text \<open>\<^verbatim>\<open>seat.heldBy && ...\<close> on a \<^verbatim>\<open>string | null\<close>: null and the empty string are falsy.\<close>

definition truthy :: "string option \<Rightarrow> bool" where
  "truthy v = (case v of None \<Rightarrow> False | Some s \<Rightarrow> truthy_string s)"

text \<open>\<^verbatim>\<open>s.split(",")\<close>: the empty string splits into one empty piece.\<close>

fun split_on :: "char \<Rightarrow> string \<Rightarrow> string list" where
  "split_on c [] = [[]]"
| "split_on c (x # xs) =
     (if x = c then [] # split_on c xs
      else (case split_on c xs of
              [] \<Rightarrow> [[x]]
            | y # ys \<Rightarrow> (x # y) # ys))"

text \<open>\<^verbatim>\<open>xs.join(",")\<close>.\<close>

fun join_with :: "char \<Rightarrow> string list \<Rightarrow> string" where
  "join_with c [] = []"
| "join_with c [x] = x"
| "join_with c (x # y # ys) = x @ c # join_with c (y # ys)"

text \<open>\<^verbatim>\<open>order.seats.split(",").filter(Boolean)\<close>.\<close>

definition order_seat_list :: "string \<Rightarrow> string list" where
  "order_seat_list txt = filter truthy_string (split_on CHR '','' txt)"

section \<open>Prisma primitives\<close>

text \<open>
  \<^verbatim>\<open>updateMany({ where, data })\<close> rewrites every row the filter selects;
  \<^verbatim>\<open>findUnique\<close> returns the row with the given unique key, if any; a filter
  \<^verbatim>\<open>{ lt: v }\<close> on a nullable column never selects a null.
\<close>

definition updateMany :: "('r \<Rightarrow> bool) \<Rightarrow> ('r \<Rightarrow> 'r) \<Rightarrow> 'r list \<Rightarrow> 'r list" where
  "updateMany wh data rs = map (\<lambda>r. if wh r then data r else r) rs"

definition prisma_lt :: "int option \<Rightarrow> int \<Rightarrow> bool" where
  "prisma_lt col v = (case col of None \<Rightarrow> False | Some t \<Rightarrow> t < v)"

definition seat_findUnique :: "int \<Rightarrow> string \<Rightarrow> SeatRecord list \<Rightarrow> SeatRecord option" where
  "seat_findUnique showId seatCode rs =
     find (\<lambda>r. show_id r = showId \<and> seat_code r = seatCode) rs"

definition order_findUnique :: "int \<Rightarrow> OrderRow list \<Rightarrow> OrderRow option" where
  "order_findUnique orderId rs = find (\<lambda>r. o_id r = orderId) rs"

section \<open>SQL primitives\<close>

text \<open>
  A condition of a \<^verbatim>\<open>WHERE\<close> clause has three values: true, false and unknown
  (\<^term>\<open>None\<close>), and a row is selected only when it is true. A comparison with a
  null is unknown.
\<close>

definition sql_eq :: "'a option \<Rightarrow> 'a option \<Rightarrow> bool option" where
  "sql_eq a b = (case (a, b) of (Some x, Some y) \<Rightarrow> Some (x = y) | _ \<Rightarrow> None)"

definition sql_lt :: "int option \<Rightarrow> int option \<Rightarrow> bool option" where
  "sql_lt a b = (case (a, b) of (Some x, Some y) \<Rightarrow> Some (x < y) | _ \<Rightarrow> None)"

definition sql_is_not_null :: "'a option \<Rightarrow> bool option" where
  "sql_is_not_null a = Some (a \<noteq> None)"

definition sql_and :: "bool option \<Rightarrow> bool option \<Rightarrow> bool option" where
  "sql_and a b =
     (if a = Some False \<or> b = Some False then Some False
      else if a = Some True \<and> b = Some True then Some True
      else None)"

definition sql_any :: "string option \<Rightarrow> string list \<Rightarrow> bool option" where
  "sql_any a xs = (case a of None \<Rightarrow> None | Some x \<Rightarrow> Some (x \<in> set xs))"

definition sql_update :: "('r \<Rightarrow> bool option) \<Rightarrow> ('r \<Rightarrow> 'r) \<Rightarrow> 'r list \<Rightarrow> 'r list" where
  "sql_update wh st rs = map (\<lambda>r. if wh r = Some True then st r else r) rs"

definition sql_select :: "('r \<Rightarrow> bool option) \<Rightarrow> 'r list \<Rightarrow> 'r list" where
  "sql_select wh rs = filter (\<lambda>r. wh r = Some True) rs"

section \<open>Hold manager\<close>

text \<open>\<^verbatim>\<open>releaseExpiredHolds\<close> of \<^verbatim>\<open>src/lib/db.ts\<close>; \<open>now\<close> is \<^verbatim>\<open>new Date()\<close>.\<close>

definition releaseExpiredHolds :: "int \<Rightarrow> int \<Rightarrow> db \<Rightarrow> db" where
  "releaseExpiredHolds now showId d =
     d\<lparr>seats := updateMany
         (\<lambda>r. show_id r = showId \<and> status r = held \<and> prisma_lt (hold_until r) now)
         (\<lambda>r. r\<lparr>status := available, held_by := None, hold_until := None\<rparr>)
         (seats d)\<rparr>"

text \<open>The SQL one; \<open>now\<close> is \<^verbatim>\<open>CURRENT_TIMESTAMP\<close>.\<close>

definition releaseExpiredHolds_sql :: "int \<Rightarrow> int \<Rightarrow> db \<Rightarrow> db" where
  "releaseExpiredHolds_sql now showId d =
     d\<lparr>seats := sql_update
         (\<lambda>r. sql_and (sql_eq (Some (show_id r)) (Some showId))
               (sql_and (sql_eq (Some (status r)) (Some held))
               (sql_and (sql_is_not_null (hold_until r))
                        (sql_lt (hold_until r) (Some now)))))
         (\<lambda>r. r\<lparr>status := available, held_by := None, hold_until := None\<rparr>)
         (seats d)\<rparr>"

section \<open>Seat toggle engine\<close>

text \<open>
  The expiry of a new hold in \<^verbatim>\<open>src/lib/db.ts\<close>:
  \<^verbatim>\<open>new Date(Date.now() + holdMinutes * 60 * 1000)\<close>, with \<open>now'\<close> for
  \<^verbatim>\<open>Date.now()\<close>. The update that writes it throws when the \<^verbatim>\<open>Date\<close> is
  invalid, and when it is one that cannot be stored.
\<close>

definition prisma_holdUntil :: "platform \<Rightarrow> int \<Rightarrow> JSNumber \<Rightarrow> error + int" where
  "prisma_holdUntil P now' holdMinutes =
     (case holdMinutes of
        NotFinite \<Rightarrow> Inl InvalidDate
      | Finite q \<Rightarrow>
          (case new_Date (fl P (of_int now' + fl P (fl P (q * 60) * 1000))) of
             None \<Rightarrow> Inl InvalidDate
           | Some t \<Rightarrow> if stores_date P t then Inr t else Inl DateNotStored))"

text \<open>
  The expiry of a new hold in the SQL layer:
  \<^verbatim>\<open>CURRENT_TIMESTAMP + make_interval(mins => holdMinutes)\<close>. The argument of
  \<^verbatim>\<open>make_interval\<close> is an \<^verbatim>\<open>integer\<close>: the statement fails on any other
  number.
\<close>

definition sql_holdUntil :: "int \<Rightarrow> JSNumber \<Rightarrow> error + int" where
  "sql_holdUntil now holdMinutes =
     (case holdMinutes of
        NotFinite \<Rightarrow> Inl InvalidInteger
      | Finite q \<Rightarrow>
          if is_int32 q then Inr (now + \<lfloor>q\<rfloor> * 60 * 1000) else Inl InvalidInteger)"

text \<open>
  \<^verbatim>\<open>toggleSeat\<close> of \<^verbatim>\<open>src/lib/db.ts\<close>. The transaction reads the clock twice:
  \<open>now\<close> is the \<^verbatim>\<open>new Date()\<close> of the first \<^verbatim>\<open>updateMany\<close>, \<open>now'\<close> the
  \<^verbatim>\<open>Date.now()\<close> of the acquiring branch. A throw rolls the transaction back, so
  an error carries no database.
\<close>

definition toggleSeat ::
  "platform \<Rightarrow> int \<Rightarrow> int \<Rightarrow> int \<Rightarrow> string \<Rightarrow> string \<Rightarrow> JSNumber \<Rightarrow> db
   \<Rightarrow> error + (ToggleResult \<times> db)" where
  "toggleSeat P now now' showId seatCode userId holdMinutes d =
     (let tx = d\<lparr>seats := updateMany
                  (\<lambda>r. show_id r = showId \<and> seat_code r = seatCode \<and> status r = held
                        \<and> prisma_lt (hold_until r) now)
                  (\<lambda>r. r\<lparr>status := available, held_by := None, hold_until := None\<rparr>)
                  (seats d)\<rparr>
      in case seat_findUnique showId seatCode (seats tx) of
           None \<Rightarrow> Inl SeatNotFound
         | Some seat \<Rightarrow>
             if status seat = sold then Inr (R_sold, tx)
             else if status seat = held \<and> truthy (held_by seat) \<and> held_by seat \<noteq> Some userId
               then Inr (R_held_by_other, tx)
             else if status seat = held \<and> held_by seat = Some userId
               then Inr (R_available,
                      tx\<lparr>seats := updateMany
                           (\<lambda>r. show_id r = showId \<and> seat_code r = seatCode)
                           (\<lambda>r. r\<lparr>status := available, held_by := None, hold_until := None\<rparr>)
                           (seats tx)\<rparr>)
             else
               (case prisma_holdUntil P now' holdMinutes of
                  Inl e \<Rightarrow> Inl e
                | Inr holdUntil \<Rightarrow>
                    Inr (R_held,
                      tx\<lparr>seats := updateMany
                           (\<lambda>r. show_id r = showId \<and> seat_code r = seatCode)
                           (\<lambda>r. r\<lparr>status := held, held_by := Some userId,
                                   hold_until := Some holdUntil\<rparr>)
                           (seats tx)\<rparr>)))"

text \<open>
  The SQL one, inside \<^verbatim>\<open>withTransaction\<close>; every \<^verbatim>\<open>CURRENT_TIMESTAMP\<close> of a
  transaction is its start time \<open>now\<close>.
\<close>

definition toggleSeat_sql ::
  "int \<Rightarrow> int \<Rightarrow> string \<Rightarrow> string \<Rightarrow> JSNumber \<Rightarrow> db \<Rightarrow> error + (ToggleResult \<times> db)" where
  "toggleSeat_sql now showId seatCode userId holdMinutes d =
     (let key = (\<lambda>r. sql_and (sql_eq (Some (show_id r)) (Some showId))
                             (sql_eq (Some (seat_code r)) (Some seatCode)));
          tx = d\<lparr>seats := sql_update
                  (\<lambda>r. sql_and (key r)
                        (sql_and (sql_eq (Some (status r)) (Some held))
                        (sql_and (sql_is_not_null (hold_until r))
                                 (sql_lt (hold_until r) (Some now)))))
                  (\<lambda>r. r\<lparr>status := available, held_by := None, hold_until := None\<rparr>)
                  (seats d)\<rparr>
      in case sql_select key (seats tx) of
           [] \<Rightarrow> Inl SeatNotFound
         | seat # _ \<Rightarrow>
             if status seat = sold then Inr (R_sold, tx)
             else if status seat = held \<and> truthy (held_by seat) \<and> held_by seat \<noteq> Some userId
               then Inr (R_held_by_other, tx)
             else if status seat = held \<and> held_by seat = Some userId
               then Inr (R_available,
                      tx\<lparr>seats := sql_update key
                           (\<lambda>r. r\<lparr>status := available, held_by := None, hold_until := None\<rparr>)
                           (seats tx)\<rparr>)
             else
               (case sql_holdUntil now holdMinutes of
                  Inl e \<Rightarrow> Inl e
                | Inr holdUntil \<Rightarrow>
                    Inr (R_held,
                      tx\<lparr>seats := sql_update key
                           (\<lambda>r. r\<lparr>status := held, held_by := Some userId,
                                   hold_until := Some holdUntil\<rparr>)
                           (seats tx)\<rparr>)))"

text \<open>\<^verbatim>\<open>freezeHeldSeats\<close>, in both layers.\<close>

definition freezeHeldSeats :: "int \<Rightarrow> string \<Rightarrow> db \<Rightarrow> db" where
  "freezeHeldSeats showId userId d =
     d\<lparr>seats := updateMany
         (\<lambda>r. show_id r = showId \<and> held_by r = Some userId \<and> status r = held)
         (\<lambda>r. r\<lparr>hold_until := None\<rparr>)
         (seats d)\<rparr>"

definition freezeHeldSeats_sql :: "int \<Rightarrow> string \<Rightarrow> db \<Rightarrow> db" where
  "freezeHeldSeats_sql showId userId d =
     d\<lparr>seats := sql_update
         (\<lambda>r. sql_and (sql_eq (Some (show_id r)) (Some showId))
               (sql_and (sql_eq (held_by r) (Some userId))
                        (sql_eq (Some (status r)) (Some held))))
         (\<lambda>r. r\<lparr>hold_until := None\<rparr>)
         (seats d)\<rparr>"

section \<open>Order lifecycle manager\<close>

record CreateOrderParams =
  p_userId :: string
  p_showId :: int
  p_seats :: "string list"
  p_amount :: int
  p_receiptType :: ReceiptType
  p_receiptRef :: string

text \<open>
  Both \<^verbatim>\<open>seats.show_id\<close> and \<^verbatim>\<open>orders.show_id\<close> reference \<^verbatim>\<open>shows(id)\<close>:
  an insert that names a show that does not exist fails.
\<close>

definition show_exists :: "int \<Rightarrow> db \<Rightarrow> bool" where
  "show_exists showId d = (find (\<lambda>r. sh_id r = showId) (shows_tbl d) \<noteq> None)"

text \<open>
  \<^verbatim>\<open>createOrder\<close>: one insert; the identifier comes from the sequence, the
  status and the creation time from the column defaults
  (\<^verbatim>\<open>DEFAULT 'pending'\<close>, \<^verbatim>\<open>DEFAULT CURRENT_TIMESTAMP\<close>). A value that is
  no \<^verbatim>\<open>INTEGER\<close> stops the insert before it runs; a show that does not exist
  fails it after the sequence has moved, and a sequence does not move back.
\<close>

definition createOrder :: "int \<Rightarrow> CreateOrderParams \<Rightarrow> db \<Rightarrow> (error + int) \<times> db" where
  "createOrder now params d =
     (if \<not> (int32 (p_showId params) \<and> int32 (p_amount params)) then (Inl InvalidInteger, d)
      else if \<not> int32 (orders_id_seq d + 1) then (Inl SequenceExhausted, d)
      else
        (let newId = orders_id_seq d + 1;
             row = \<lparr>o_id = newId, o_user_id = p_userId params, o_show_id = p_showId params,
                    o_seats = join_with CHR '','' (p_seats params),
                    o_amount = p_amount params,
                    o_receipt_type = p_receiptType params,
                    o_receipt_ref = p_receiptRef params,
                    o_status = ''pending'', o_created_at = now,
                    o_paid_at = None, o_admin_id = None\<rparr>
         in if \<not> show_exists (p_showId params) d
            then (Inl ForeignKeyViolation, d\<lparr>orders_id_seq := newId\<rparr>)
            else (Inr newId, d\<lparr>orders := orders d @ [row], orders_id_seq := newId\<rparr>)))"

definition to_OrderRecord :: "OrderRow \<Rightarrow> string list \<Rightarrow> string \<Rightarrow> OrderRecord" where
  "to_OrderRecord order seatList st =
     \<lparr>or_id = o_id order, or_user_id = o_user_id order, or_show_id = o_show_id order,
      or_seats = seatList, or_amount = o_amount order, or_status = st\<rparr>"

text \<open>\<^verbatim>\<open>approveOrder\<close> of \<^verbatim>\<open>src/lib/db.ts\<close>; \<open>now\<close> is the \<^verbatim>\<open>new Date()\<close> of \<^verbatim>\<open>paidAt\<close>.\<close>

definition approveOrder :: "int \<Rightarrow> int \<Rightarrow> string \<Rightarrow> db \<Rightarrow> OrderRecord option \<times> db" where
  "approveOrder now orderId adminId d =
     (case order_findUnique orderId (orders d) of
        None \<Rightarrow> (None, d)
      | Some order \<Rightarrow>
          if o_status order \<noteq> ''pending''
          then (Some (to_OrderRecord order (order_seat_list (o_seats order)) (o_status order)), d)
          else
            (let seatList = order_seat_list (o_seats order);
                 seats1 =
                   (if length seatList > 0
                    then updateMany
                           (\<lambda>r. show_id r = o_show_id order \<and> seat_code r \<in> set seatList)
                           (\<lambda>r. r\<lparr>status := sold, buyer_id := Some (o_user_id order),
                                   held_by := None, hold_until := None\<rparr>)
                           (seats d)
                    else seats d);
                 orders1 = updateMany (\<lambda>r. o_id r = orderId)
                             (\<lambda>r. r\<lparr>o_status := ''approved'', o_paid_at := Some now,
                                     o_admin_id := Some adminId\<rparr>)
                             (orders d);
                 sessions1 = filter (\<lambda>r. us_user_id r \<noteq> o_user_id order) (user_sessions d)
             in (Some (to_OrderRecord order seatList ''approved''),
                 d\<lparr>seats := seats1, orders := orders1, user_sessions := sessions1\<rparr>)))"

text \<open>\<^verbatim>\<open>rejectOrder\<close> of \<^verbatim>\<open>src/lib/db.ts\<close>.\<close>

definition rejectOrder :: "int \<Rightarrow> string \<Rightarrow> db \<Rightarrow> OrderRecord option \<times> db" where
  "rejectOrder orderId adminId d =
     (case order_findUnique orderId (orders d) of
        None \<Rightarrow> (None, d)
      | Some order \<Rightarrow>
          if o_status order \<noteq> ''pending''
          then (Some (to_OrderRecord order (order_seat_list (o_seats order)) (o_status order)), d)
          else
            (let seatList = order_seat_list (o_seats order);
                 seats1 =
                   (if length seatList > 0
                    then updateMany
                           (\<lambda>r. show_id r = o_show_id order \<and> seat_code r \<in> set seatList)
                           (\<lambda>r. r\<lparr>status := available, held_by := None, hold_until := None\<rparr>)
                           (seats d)
                    else seats d);
                 orders1 = updateMany (\<lambda>r. o_id r = orderId)
                             (\<lambda>r. r\<lparr>o_status := ''rejected'', o_admin_id := Some adminId\<rparr>)
                             (orders d);
                 sessions1 = filter (\<lambda>r. us_user_id r \<noteq> o_user_id order) (user_sessions d)
             in (Some (to_OrderRecord order seatList ''rejected''),
                 d\<lparr>seats := seats1, orders := orders1, user_sessions := sessions1\<rparr>)))"

text \<open>The SQL ones; \<^verbatim>\<open>DELETE ... WHERE\<close> removes the rows whose condition is true.\<close>

definition sql_delete :: "('r \<Rightarrow> bool option) \<Rightarrow> 'r list \<Rightarrow> 'r list" where
  "sql_delete wh rs = filter (\<lambda>r. wh r \<noteq> Some True) rs"

definition approveOrder_sql :: "int \<Rightarrow> int \<Rightarrow> string \<Rightarrow> db \<Rightarrow> OrderRecord option \<times> db" where
  "approveOrder_sql now orderId adminId d =
     (case sql_select (\<lambda>r. sql_eq (Some (o_id r)) (Some orderId)) (orders d) of
        [] \<Rightarrow> (None, d)
      | orderRow # _ \<Rightarrow>
          if o_status orderRow \<noteq> ''pending''
          then (Some (to_OrderRecord orderRow (order_seat_list (o_seats orderRow))
                       (o_status orderRow)), d)
          else
            (let seatList = order_seat_list (o_seats orderRow);
                 seats1 =
                   (if length seatList > 0
                    then sql_update
                           (\<lambda>r. sql_and (sql_eq (Some (show_id r)) (Some (o_show_id orderRow)))
                                         (sql_any (Some (seat_code r)) seatList))
                           (\<lambda>r. r\<lparr>status := sold, buyer_id := Some (o_user_id orderRow),
                                   held_by := None, hold_until := None\<rparr>)
                           (seats d)
                    else seats d);
                 orders1 = sql_update (\<lambda>r. sql_eq (Some (o_id r)) (Some orderId))
                             (\<lambda>r. r\<lparr>o_status := ''approved'', o_paid_at := Some now,
                                     o_admin_id := Some adminId\<rparr>)
                             (orders d);
                 sessions1 = sql_delete
                               (\<lambda>r. sql_eq (Some (us_user_id r)) (Some (o_user_id orderRow)))
                               (user_sessions d)
             in (Some (to_OrderRecord orderRow seatList ''approved''),
                 d\<lparr>seats := seats1, orders := orders1, user_sessions := sessions1\<rparr>)))"

definition rejectOrder_sql :: "int \<Rightarrow> string \<Rightarrow> db \<Rightarrow> OrderRecord option \<times> db" where
  "rejectOrder_sql orderId adminId d =
     (case sql_select (\<lambda>r. sql_eq (Some (o_id r)) (Some orderId)) (orders d) of
        [] \<Rightarrow> (None, d)
      | orderRow # _ \<Rightarrow>
          if o_status orderRow \<noteq> ''pending''
          then (Some (to_OrderRecord orderRow (order_seat_list (o_seats orderRow))
                       (o_status orderRow)), d)
          else
            (let seatList = order_seat_list (o_seats orderRow);
                 seats1 =
                   (if length seatList > 0
                    then sql_update
                           (\<lambda>r. sql_and (sql_eq (Some (show_id r)) (Some (o_show_id orderRow)))
                                         (sql_any (Some (seat_code r)) seatList))
                           (\<lambda>r. r\<lparr>status := available, held_by := None, hold_until := None\<rparr>)
                           (seats d)
                    else seats d);
                 orders1 = sql_update (\<lambda>r. sql_eq (Some (o_id r)) (Some orderId))
                             (\<lambda>r. r\<lparr>o_status := ''rejected'', o_admin_id := Some adminId\<rparr>)
                             (orders d);
                 sessions1 = sql_delete
                               (\<lambda>r. sql_eq (Some (us_user_id r)) (Some (o_user_id orderRow)))
                               (user_sessions d)
             in (Some (to_OrderRecord orderRow seatList ''rejected''),
                 d\<lparr>seats := seats1, orders := orders1, user_sessions := sessions1\<rparr>)))"

section \<open>Seat seeding\<close>

text \<open>\<^verbatim>\<open>s.slice(0, end)\<close>: a negative end counts from the end of the string.\<close>

definition js_slice0 :: "string \<Rightarrow> int \<Rightarrow> string" where
  "js_slice0 s e =
     (let n = int (length s);
          k = (if e < 0 then max (n + e) 0 else min e n)
      in take (nat k) s)"

text \<open>
  A whole number inside a template literal: its decimal digits (JavaScript prints
  every whole number below \<open>10\<^sup>2\<^sup>1\<close> in full).
\<close>

definition digit_char :: "nat \<Rightarrow> char" where
  "digit_char k = ''0123456789'' ! k"

function dec_string :: "nat \<Rightarrow> string" where
  "dec_string n =
     (if n < 10 then [digit_char n] else dec_string (n div 10) @ [digit_char (n mod 10)])"
  by pat_completeness auto
termination
  by (relation "measure id") auto

definition number_string :: "int \<Rightarrow> string" where
  "number_string i =
     (if i < 0 then CHR ''-'' # dec_string (nat (- i)) else dec_string (nat i))"

definition alphabet :: string where
  "alphabet = ''ABCDEFGHIJKLMNOPQRSTUVWXYZ''"

text \<open>The seat codes the two nested loops of \<^verbatim>\<open>seedSeats\<close> push, in their order.\<close>

definition seat_codes :: "int \<Rightarrow> int \<Rightarrow> string list" where
  "seat_codes rows cols =
     concat (map (\<lambda>letter. map (\<lambda>col. letter # number_string col) [1..cols])
                 (js_slice0 alphabet rows))"

text \<open>
  Modelled from the spec: the Prisma schema, which gives the columns of a created
  seat their defaults, is not among the sources; a seeded seat starts as
  available with no holder, no expiry and no buyer, as the \<^verbatim>\<open>CREATE TABLE\<close> of
  the SQL layer has it.
\<close>

definition seat_defaults :: "int \<Rightarrow> string \<Rightarrow> SeatRecord" where
  "seat_defaults showId seatCode =
     \<lparr>show_id = showId, seat_code = seatCode, status = available,
      held_by = None, hold_until = None, buyer_id = None\<rparr>"

text \<open>\<^verbatim>\<open>createMany({ data, skipDuplicates: true })\<close>: a row whose key is taken is skipped.\<close>

fun seat_createMany :: "(int \<times> string) list \<Rightarrow> SeatRecord list \<Rightarrow> SeatRecord list" where
  "seat_createMany [] rs = rs"
| "seat_createMany ((showId, seatCode) # data) rs =
     seat_createMany data
       (if seat_findUnique showId seatCode rs = None
        then rs @ [seat_defaults showId seatCode] else rs)"

definition seedSeats :: "int \<Rightarrow> int \<Rightarrow> int \<Rightarrow> db \<Rightarrow> error + db" where
  "seedSeats showId rows cols d =
     (let data = map (\<lambda>code. (showId, code)) (seat_codes rows cols)
      in if length data > 0
         then (if \<not> show_exists showId d then Inl ForeignKeyViolation
               else Inr (d\<lparr>seats := seat_createMany data (seats d)\<rparr>))
         else Inr d)"

text \<open>
  The SQL one: \<^verbatim>\<open>INSERT ... VALUES (showId, code, 'available'), ...
  ON CONFLICT (show_id, seat_code) DO NOTHING\<close>.
\<close>

fun sql_insert_seats :: "(int \<times> string \<times> SeatStatus) list \<Rightarrow> SeatRecord list \<Rightarrow> SeatRecord list" where
  "sql_insert_seats [] rs = rs"
| "sql_insert_seats ((showId, seatCode, st) # vals) rs =
     sql_insert_seats vals
       (if sql_select (\<lambda>r. sql_and (sql_eq (Some (show_id r)) (Some showId))
                                   (sql_eq (Some (seat_code r)) (Some seatCode))) rs = []
        then rs @ [\<lparr>show_id = showId, seat_code = seatCode, status = st,
                    held_by = None, hold_until = None, buyer_id = None\<rparr>]
        else rs)"

definition seedSeats_sql :: "int \<Rightarrow> int \<Rightarrow> int \<Rightarrow> db \<Rightarrow> error + db" where
  "seedSeats_sql showId rows cols d =
     (let vals = map (\<lambda>code. (showId, code, available)) (seat_codes rows cols)
      in if length vals > 0
         then (if \<not> show_exists showId d then Inl ForeignKeyViolation
               else Inr (d\<lparr>seats := sql_insert_seats vals (seats d)\<rparr>))
         else Inr d)"

section \<open>Operator actions\<close>

text \<open>A form entry of a numeric field: absent, or the number that \<^verbatim>\<open>Number(value)\<close> is.\<close>

datatype NumberEntry = NoEntry | Entry JSNumber

definition parseNumberField :: "NumberEntry \<Rightarrow> rat option \<Rightarrow> error + rat" where
  "parseNumberField v minimum =
     (case v of
        NoEntry \<Rightarrow> Inl MissingNumericField
      | Entry NotFinite \<Rightarrow> Inl InvalidNumericField
      | Entry (Finite parsed) \<Rightarrow>
          (case minimum of
             None \<Rightarrow> Inr parsed
           | Some m \<Rightarrow> if parsed < m then Inl NumericFieldBelowMinimum else Inr parsed))"

text \<open>
  The form of \<^verbatim>\<open>createShowAction\<close>: a text entry is \<^term>\<open>None\<close> when it is
  absent or a file.
\<close>

record ShowForm =
  f_title :: "string option"
  f_startsAt :: "string option"
  f_rows :: NumberEntry
  f_cols :: NumberEntry
  f_price :: NumberEntry

text \<open>
  \<^verbatim>\<open>createShowAction\<close>. \<open>authed\<close> is what \<^verbatim>\<open>isAdminAuthenticated()\<close> returns.
  \<^verbatim>\<open>prisma.show.create\<close> throws, and writes nothing, when rows, cols or price is
  not a value of an \<^verbatim>\<open>INTEGER\<close> column, when the start time cannot be stored and
  when the sequence of identifiers is exhausted. The show is created before the
  seats are seeded, outside any transaction, so the result is paired with the
  database that the call leaves.
\<close>

definition createShowAction ::
  "bool \<Rightarrow> platform \<Rightarrow> ShowForm \<Rightarrow> db \<Rightarrow> (error + unit) \<times> db" where
  "createShowAction authed P formData d =
     (if \<not> authed then (Inl (Redirect ''/admin/login''), d)
      else case parseNumberField (f_rows formData) (Some 1) of
        Inl e \<Rightarrow> (Inl e, d)
      | Inr rows \<Rightarrow>
      (case parseNumberField (f_cols formData) (Some 1) of
        Inl e \<Rightarrow> (Inl e, d)
      | Inr cols \<Rightarrow>
      (case parseNumberField (f_price formData) (Some 0) of
        Inl e \<Rightarrow> (Inl e, d)
      | Inr price \<Rightarrow>
      (case f_title formData of
        None \<Rightarrow> (Inl TitleRequired, d)
      | Some title \<Rightarrow>
      if length (trim P title) = 0 then (Inl TitleRequired, d)
      else (case f_startsAt formData of
        None \<Rightarrow> (Inl StartsAtRequired, d)
      | Some startsAtRaw \<Rightarrow>
      if length startsAtRaw = 0 then (Inl StartsAtRequired, d)
      else (case parseDate P startsAtRaw of
        None \<Rightarrow> (Inl StartsAtInvalid, d)
      | Some startsAt \<Rightarrow>
          if \<not> (is_int32 rows \<and> is_int32 cols \<and> is_int32 price) then (Inl InvalidInteger, d)
          else if \<not> stores_date P startsAt then (Inl DateNotStored, d)
          else if \<not> int32 (shows_id_seq d + 1) then (Inl SequenceExhausted, d)
          else
            (let newId = shows_id_seq d + 1;
                 showRow = \<lparr>sh_id = newId, sh_title = trim P title, sh_starts_at = startsAt,
                          sh_rows = \<lfloor>rows\<rfloor>, sh_cols = \<lfloor>cols\<rfloor>, sh_price = \<lfloor>price\<rfloor>\<rparr>;
                 created = d\<lparr>shows_tbl := shows_tbl d @ [showRow], shows_id_seq := newId\<rparr>
             in case seedSeats newId \<lfloor>rows\<rfloor> \<lfloor>cols\<rfloor> created of
                  Inl e \<Rightarrow> (Inl e, created)
                | Inr seeded \<Rightarrow> (Inr (), seeded))))))))"

text \<open>
  \<^verbatim>\<open>updateShowSettingsAction\<close>: \<^verbatim>\<open>prisma.show.update\<close> throws when the
  identifier or the price is not a value of an \<^verbatim>\<open>INTEGER\<close> column, and when no
  show has the identifier.
\<close>

definition updateShowSettingsAction ::
  "bool \<Rightarrow> NumberEntry \<Rightarrow> NumberEntry \<Rightarrow> db \<Rightarrow> error + db" where
  "updateShowSettingsAction authed showIdEntry priceEntry d =
     (if \<not> authed then Inl (Redirect ''/admin/login'')
      else case parseNumberField showIdEntry (Some 1) of
        Inl e \<Rightarrow> Inl e
      | Inr showId \<Rightarrow>
      (case parseNumberField priceEntry (Some 0) of
        Inl e \<Rightarrow> Inl e
      | Inr price \<Rightarrow>
          if \<not> (is_int32 showId \<and> is_int32 price) then Inl InvalidInteger
          else if \<not> show_exists \<lfloor>showId\<rfloor> d then Inl RecordNotFound
          else Inr (d\<lparr>shows_tbl := updateMany (\<lambda>r. sh_id r = \<lfloor>showId\<rfloor>)
                                      (\<lambda>r. r\<lparr>sh_price := \<lfloor>price\<rfloor>\<rparr>) (shows_tbl d)\<rparr>)))"

section \<open>Sequences of operations\<close>

text \<open>
  One call of the core, with its arguments and the clock readings it makes. The
  constructors ending in \<open>Sql\<close> are the calls of the SQL layer.
\<close>

datatype op =
    OpCreateShow bool ShowForm
  | OpSeedSeats int int int
  | OpToggle int int int string string JSNumber
  | OpRelease int int
  | OpFreeze int string
  | OpCreateOrder int CreateOrderParams
  | OpApprove int int string
  | OpReject int string
  | OpSeedSeatsSql int int int
  | OpToggleSql int int string string JSNumber
  | OpReleaseSql int int
  | OpFreezeSql int string
  | OpApproveSql int int string
  | OpRejectSql int string

text \<open>A transaction or a single statement that throws leaves the database as it was.\<close>

definition or_unchanged :: "db \<Rightarrow> error + db \<Rightarrow> db" where
  "or_unchanged d res = (case res of Inl e \<Rightarrow> d | Inr d' \<Rightarrow> d')"

fun exec :: "platform \<Rightarrow> db \<Rightarrow> op \<Rightarrow> db" where
  "exec P d (OpCreateShow authed formData) = snd (createShowAction authed P formData d)"
| "exec P d (OpSeedSeats showId rows cols) = or_unchanged d (seedSeats showId rows cols d)"
| "exec P d (OpToggle now now' showId seatCode userId holdMinutes) =
     or_unchanged d (map_sum id snd (toggleSeat P now now' showId seatCode userId holdMinutes d))"
| "exec P d (OpRelease now showId) = releaseExpiredHolds now showId d"
| "exec P d (OpFreeze showId userId) = freezeHeldSeats showId userId d"
| "exec P d (OpCreateOrder now params) = snd (createOrder now params d)"
| "exec P d (OpApprove now orderId adminId) = snd (approveOrder now orderId adminId d)"
| "exec P d (OpReject orderId adminId) = snd (rejectOrder orderId adminId d)"
| "exec P d (OpSeedSeatsSql showId rows cols) = or_unchanged d (seedSeats_sql showId rows cols d)"
| "exec P d (OpToggleSql now showId seatCode userId holdMinutes) =
     or_unchanged d (map_sum id snd (toggleSeat_sql now showId seatCode userId holdMinutes d))"
| "exec P d (OpReleaseSql now showId) = releaseExpiredHolds_sql now showId d"
| "exec P d (OpFreezeSql showId userId) = freezeHeldSeats_sql showId userId d"
| "exec P d (OpApproveSql now orderId adminId) = snd (approveOrder_sql now orderId adminId d)"
| "exec P d (OpRejectSql orderId adminId) = snd (rejectOrder_sql orderId adminId d)"

definition run :: "platform \<Rightarrow> op list \<Rightarrow> db \<Rightarrow> db" where
  "run P ops d = foldl (exec P) d ops"

text \<open>
  The bot passes \<^verbatim>\<open>String(userId)\<close> of a user identifier that is not zero: the
  caller of a toggle is never the empty string.
\<close>

fun named_caller :: "op \<Rightarrow> bool" where
  "named_caller (OpToggle now now' showId seatCode userId holdMinutes) = (userId \<noteq> [])"
| "named_caller (OpToggleSql now showId seatCode userId holdMinutes) = (userId \<noteq> [])"
| "named_caller other = True"

section \<open>Properties of seats and databases\<close>

text \<open>
  The invariant of a seat as the specification words it: no holder and no buyer and
  available, or a holder and no buyer and held, or no holder and a buyer and sold.
\<close>

definition seat_invariant :: "SeatRecord \<Rightarrow> bool" where
  "seat_invariant r =
     ((status r = available \<and> held_by r = None \<and> buyer_id r = None)
      \<or> (status r = held \<and> held_by r \<noteq> None \<and> buyer_id r = None)
      \<or> (status r = sold \<and> buyer_id r \<noteq> None \<and> held_by r = None))"

text \<open>
  What the operations keep: the same three combinations of status and holder, with
  the buyer constrained on a sold seat only.
\<close>

definition seat_consistent :: "SeatRecord \<Rightarrow> bool" where
  "seat_consistent r =
     ((status r = available \<and> held_by r = None \<and> hold_until r = None)
      \<or> (status r = held \<and> held_by r \<noteq> None)
      \<or> (status r = sold \<and> buyer_id r \<noteq> None \<and> held_by r = None \<and> hold_until r = None))"

definition all_seats_consistent :: "db \<Rightarrow> bool" where
  "all_seats_consistent d = list_all seat_consistent (seats d)"

text \<open>A held seat has a holder, and the holder is not the empty string.\<close>

definition holder_named :: "SeatRecord \<Rightarrow> bool" where
  "holder_named r = (status r = held \<longrightarrow> truthy (held_by r))"

definition all_holders_named :: "db \<Rightarrow> bool" where
  "all_holders_named d = list_all holder_named (seats d)"

text \<open>
  A property of seat rows that every write of the core establishes or keeps: the
  row of a release, of a sale, of a seeded seat, and a held row whose expiry is
  cleared; and one that the hold written for a given user has.
\<close>

definition kept_by_writes :: "(SeatRecord \<Rightarrow> bool) \<Rightarrow> bool" where
  "kept_by_writes I =
     ((\<forall>r. I (r\<lparr>status := available, held_by := None, hold_until := None\<rparr>))
      \<and> (\<forall>r u. I (r\<lparr>status := sold, buyer_id := Some u, held_by := None, hold_until := None\<rparr>))
      \<and> (\<forall>r. I r \<and> status r = held \<longrightarrow> I (r\<lparr>hold_until := None\<rparr>))
      \<and> (\<forall>showId seatCode. I (seat_defaults showId seatCode)))"

definition kept_by_hold :: "(SeatRecord \<Rightarrow> bool) \<Rightarrow> string \<Rightarrow> bool" where
  "kept_by_hold I userId =
     (\<forall>r t. I (r\<lparr>status := held, held_by := Some userId, hold_until := Some t\<rparr>))"

fun kept_by_op :: "(SeatRecord \<Rightarrow> bool) \<Rightarrow> op \<Rightarrow> bool" where
  "kept_by_op I (OpToggle now now' showId seatCode userId holdMinutes) = kept_by_hold I userId"
| "kept_by_op I (OpToggleSql now showId seatCode userId holdMinutes) = kept_by_hold I userId"
| "kept_by_op I other = True"

text \<open>The constraint \<^verbatim>\<open>UNIQUE(show_id, seat_code)\<close>.\<close>

definition unique_seat :: "db \<Rightarrow> bool" where
  "unique_seat d = distinct (map (\<lambda>r. (show_id r, seat_code r)) (seats d))"

text \<open>
  Referential integrity of \<^verbatim>\<open>seats.show_id\<close>, and the sequences of \<^verbatim>\<open>shows.id\<close>
  and of \<^verbatim>\<open>orders.id\<close> being ahead of every identifier in their tables.
\<close>

definition seats_reference_shows :: "db \<Rightarrow> bool" where
  "seats_reference_shows d = (\<forall>r \<in> set (seats d). show_exists (show_id r) d)"

definition shows_below_seq :: "db \<Rightarrow> bool" where
  "shows_below_seq d = (\<forall>r \<in> set (shows_tbl d). sh_id r \<le> shows_id_seq d)"

definition orders_below_seq :: "db \<Rightarrow> bool" where
  "orders_below_seq d = (\<forall>r \<in> set (orders d). o_id r \<le> orders_id_seq d)"

definition count_seats :: "int \<Rightarrow> db \<Rightarrow> nat" where
  "count_seats showId d = length (filter (\<lambda>r. show_id r = showId) (seats d))"

text \<open>An expired hold, and the row it is reverted to.\<close>

definition hold_expired :: "int \<Rightarrow> SeatRecord \<Rightarrow> bool" where
  "hold_expired now r =
     (status r = held \<and> (case hold_until r of None \<Rightarrow> False | Some t \<Rightarrow> t < now))"

definition released :: "SeatRecord \<Rightarrow> SeatRecord" where
  "released r = r\<lparr>status := available, held_by := None, hold_until := None\<rparr>"

definition revert_expired :: "int \<Rightarrow> SeatRecord \<Rightarrow> SeatRecord" where
  "revert_expired now r = (if hold_expired now r then released r else r)"

text \<open>Rewriting the rows of one seat, and the rows of the seats of a show with given codes.\<close>

definition on_seat :: "int \<Rightarrow> string \<Rightarrow> (SeatRecord \<Rightarrow> SeatRecord) \<Rightarrow> db \<Rightarrow> db" where
  "on_seat showId seatCode f d =
     d\<lparr>seats := map (\<lambda>r. if show_id r = showId \<and> seat_code r = seatCode then f r else r)
                    (seats d)\<rparr>"

definition on_seat_codes ::
  "int \<Rightarrow> string list \<Rightarrow> (SeatRecord \<Rightarrow> SeatRecord) \<Rightarrow> SeatRecord list \<Rightarrow> SeatRecord list" where
  "on_seat_codes showId codes f rs =
     map (\<lambda>r. if show_id r = showId \<and> seat_code r \<in> set codes then f r else r) rs"

text \<open>A seat code as the seeding writes them and as an order can list them: not empty, no comma.\<close>

definition plain_code :: "string \<Rightarrow> bool" where
  "plain_code code = (code \<noteq> [] \<and> CHR '','' \<notin> set code)"

text \<open>
  The four outcomes of a toggle as the specification words them, on the seat \<open>s0\<close>
  that the key finds, once its expired hold is reverted: a sold seat is reported and
  left; a held seat is released when the caller holds it and reported as held by
  another otherwise; an available seat is given to the caller until the expiry, and
  when the layer cannot produce the expiry the call fails with its error.
\<close>

definition toggle_cases ::
  "error + int \<Rightarrow> int \<Rightarrow> int \<Rightarrow> string \<Rightarrow> string \<Rightarrow> SeatRecord \<Rightarrow> db
   \<Rightarrow> error + (ToggleResult \<times> db)" where
  "toggle_cases expiry now showId seatCode userId s0 d =
     (let reverted = on_seat showId seatCode (revert_expired now) d
      in case status (revert_expired now s0) of
           sold \<Rightarrow> Inr (R_sold, reverted)
         | held \<Rightarrow>
             if held_by (revert_expired now s0) = Some userId
             then Inr (R_available, on_seat showId seatCode released reverted)
             else Inr (R_held_by_other, reverted)
         | available \<Rightarrow>
             (case expiry of
                Inl e \<Rightarrow> Inl e
              | Inr t \<Rightarrow>
                  Inr (R_held,
                    on_seat showId seatCode
                      (\<lambda>r. r\<lparr>status := held, held_by := Some userId, hold_until := Some t\<rparr>)
                      reverted)))"

text \<open>Two toggles in a row, with their two results.\<close>

definition toggle_twice ::
  "(db \<Rightarrow> error + (ToggleResult \<times> db)) \<Rightarrow> (db \<Rightarrow> error + (ToggleResult \<times> db)) \<Rightarrow> db
   \<Rightarrow> error + (ToggleResult \<times> ToggleResult \<times> db)" where
  "toggle_twice first second d =
     (case first d of
        Inl e \<Rightarrow> Inl e
      | Inr (r1, d1) \<Rightarrow>
          (case second d1 of
             Inl e \<Rightarrow> Inl e
           | Inr (r2, d2) \<Rightarrow> Inr (r1, r2, d2)))"

section \<open>Example databases\<close>

text \<open>
  The platform on the values of the examples: their whole numbers are doubles, their
  dates lie between 1970 and 9999, the title has no white space around it and the
  one date text parses.
\<close>

definition example_date :: "string \<Rightarrow> int option" where
  "example_date txt = (if txt = ''2030-01-01T20:00'' then Some 1893528000000 else None)"

definition example_trim :: "string \<Rightarrow> string" where
  "example_trim txt = (if txt = ''Gala'' then ''Gala'' else [])"

definition example_platform :: platform where
  "example_platform =
     \<lparr>fl = (\<lambda>x. x), stores_date = (\<lambda>t. 0 \<le> t \<and> t \<le> 253402300799999),
      trim = example_trim, parseDate = example_date\<rparr>"

definition example_form :: "rat \<Rightarrow> rat \<Rightarrow> ShowForm" where
  "example_form rows cols =
     \<lparr>f_title = Some ''Gala'', f_startsAt = Some ''2030-01-01T20:00'',
      f_rows = Entry (Finite rows), f_cols = Entry (Finite cols),
      f_price = Entry (Finite 250000)\<rparr>"

definition example_order :: "string \<Rightarrow> string list \<Rightarrow> CreateOrderParams" where
  "example_order userId seatList =
     \<lparr>p_userId = userId, p_showId = 1, p_seats = seatList, p_amount = 250000,
      p_receiptType = text_receipt, p_receiptRef = ''paid''\<rparr>"

text \<open>A show of one row and two columns: seats A1 and A2 of show 1.\<close>

definition small_show_db :: db where
  "small_show_db = run example_platform [OpCreateShow True (example_form 1 2)] empty_db"

text \<open>
  User u1 holds A1, confirms, and sends the receipt twice: two pending orders, 1 and
  2, on the same seat. The operator approves order 1.
\<close>

definition double_order_ops :: "op list" where
  "double_order_ops =
     [OpCreateShow True (example_form 1 2),
      OpToggle 1000 1000 1 ''A1'' ''u1'' (Finite 10),
      OpFreeze 1 ''u1'',
      OpCreateOrder 2000 (example_order ''u1'' [''A1'']),
      OpCreateOrder 3000 (example_order ''u1'' [''A1'']),
      OpApprove 4000 1 ''admin-dashboard'']"

definition double_order_db :: db where
  "double_order_db = run example_platform double_order_ops empty_db"

text \<open>
  Two holds on the small show: u1 holds A1 until 601000, u2 holds A2 and has
  confirmed, so that hold has no expiry.
\<close>

definition holds_db :: db where
  "holds_db = run example_platform
     [OpCreateShow True (example_form 1 2),
      OpToggle 1000 1000 1 ''A1'' ''u1'' (Finite 10),
      OpToggle 1000 1000 1 ''A2'' ''u2'' (Finite 10),
      OpFreeze 1 ''u2''] empty_db"

text \<open>The same two holds before u2 confirms.\<close>

definition unfrozen_db :: db where
  "unfrozen_db = run example_platform
     [OpCreateShow True (example_form 1 2),
      OpToggle 1000 1000 1 ''A1'' ''u1'' (Finite 10),
      OpToggle 1000 1000 1 ''A2'' ''u2'' (Finite 10)] empty_db"

text \<open>
  A show of one row and three columns; user u1 holds A1 and A2, confirms and sends
  one receipt: order 1, on A1 and A2, is pending. User u2 holds A3.
\<close>

definition unsettled_db :: db where
  "unsettled_db = run example_platform
     [OpCreateShow True (example_form 1 3),
      OpToggle 1000 1000 1 ''A1'' ''u1'' (Finite 10),
      OpToggle 1000 1000 1 ''A2'' ''u1'' (Finite 10),
      OpToggle 1000 1000 1 ''A3'' ''u2'' (Finite 10),
      OpFreeze 1 ''u1'',
      OpCreateOrder 2000 (example_order ''u1'' [''A1'', ''A2''])] empty_db"

text \<open>After the approval of order 1, the operator rejects the duplicate order 2.\<close>

definition duplicate_rejected_ops :: "op list" where
  "duplicate_rejected_ops = double_order_ops @ [OpReject 2 ''admin-dashboard'']"


section \<open>The two storage layers\<close>

lemma find_as_filter:
  "find P xs = (case filter P xs of [] \<Rightarrow> None | x # _ \<Rightarrow> Some x)"
  by (induction xs) auto

lemma sql_update_as_updateMany:
  "(\<And>r. (wh r = Some True) = P r) \<Longrightarrow> sql_update wh st rs = updateMany P st rs"
  by (simp add: sql_update_def updateMany_def)

lemma sql_select_as_filter:
  "(\<And>r. (wh r = Some True) = P r) \<Longrightarrow> sql_select wh rs = filter P rs"
  by (simp add: sql_select_def)

lemma sql_delete_as_filter:
  "(\<And>r. (wh r = Some True) = P r) \<Longrightarrow> sql_delete wh rs = filter (\<lambda>r. \<not> P r) rs"
  by (simp add: sql_delete_def)

lemma sql_key_where:
  "(sql_and (sql_eq (Some (show_id r)) (Some showId))
            (sql_eq (Some (seat_code r)) (Some seatCode)) = Some True)
   = (show_id r = showId \<and> seat_code r = seatCode)"
  by (simp add: sql_and_def sql_eq_def)

lemma sql_not_null_lt:
  "(sql_is_not_null c = Some True \<and> sql_lt c (Some now) = Some True) = prisma_lt c now"
  by (cases c) (simp_all add: sql_is_not_null_def sql_lt_def prisma_lt_def)

lemma sql_and_true: "(sql_and a b = Some True) = (a = Some True \<and> b = Some True)"
  by (auto simp: sql_and_def)

lemma sql_eq_some: "(sql_eq (Some x) (Some y) = Some True) = (x = y)"
  by (simp add: sql_eq_def)

lemma sql_eq_col: "(sql_eq c (Some y) = Some True) = (c = Some y)"
  by (cases c) (simp_all add: sql_eq_def)

lemma sql_any_some: "(sql_any (Some x) ys = Some True) = (x \<in> set ys)"
  by (simp add: sql_any_def)

lemma releaseExpiredHolds_sql_eq:
  "releaseExpiredHolds_sql now showId d = releaseExpiredHolds now showId d"
  unfolding releaseExpiredHolds_sql_def releaseExpiredHolds_def
  by (subst sql_update_as_updateMany
        [where P = "\<lambda>r. show_id r = showId \<and> status r = held \<and> prisma_lt (hold_until r) now"])
     (simp_all add: sql_and_true sql_eq_some sql_not_null_lt)

lemma freezeHeldSeats_sql_eq:
  "freezeHeldSeats_sql showId userId d = freezeHeldSeats showId userId d"
  unfolding freezeHeldSeats_sql_def freezeHeldSeats_def
  by (subst sql_update_as_updateMany
        [where P = "\<lambda>r. show_id r = showId \<and> held_by r = Some userId \<and> status r = held"])
     (simp_all add: sql_and_true sql_eq_some sql_eq_col)

lemma toggleSeat_sql_eq:
  assumes "sql_holdUntil now holdMinutes = prisma_holdUntil P now holdMinutes"
  shows "toggleSeat_sql now showId seatCode userId holdMinutes d
         = toggleSeat P now now showId seatCode userId holdMinutes d"
proof -
  have k: "\<And>st rs. sql_update (\<lambda>r. sql_and (sql_eq (Some (show_id r)) (Some showId))
                             (sql_eq (Some (seat_code r)) (Some seatCode))) st rs
        = updateMany (\<lambda>r. show_id r = showId \<and> seat_code r = seatCode) st rs"
    by (rule sql_update_as_updateMany) (rule sql_key_where)
  have e: "\<And>st rs. sql_update (\<lambda>r. sql_and (sql_and (sql_eq (Some (show_id r)) (Some showId))
                             (sql_eq (Some (seat_code r)) (Some seatCode)))
                        (sql_and (sql_eq (Some (status r)) (Some held))
                        (sql_and (sql_is_not_null (hold_until r))
                                 (sql_lt (hold_until r) (Some now))))) st rs
        = updateMany (\<lambda>r. show_id r = showId \<and> seat_code r = seatCode \<and> status r = held
                        \<and> prisma_lt (hold_until r) now) st rs"
    by (rule sql_update_as_updateMany) (simp add: sql_and_true sql_eq_some sql_not_null_lt)
  have s: "\<And>rs. sql_select (\<lambda>r. sql_and (sql_eq (Some (show_id r)) (Some showId))
                             (sql_eq (Some (seat_code r)) (Some seatCode))) rs
        = filter (\<lambda>r. show_id r = showId \<and> seat_code r = seatCode) rs"
    by (rule sql_select_as_filter) (rule sql_key_where)
  show ?thesis
    unfolding toggleSeat_sql_def toggleSeat_def Let_def k e s seat_findUnique_def find_as_filter assms
    by (simp split: list.splits)
qed

lemma approveOrder_sql_eq:
  "approveOrder_sql now orderId adminId d = approveOrder now orderId adminId d"
proof -
  have s: "\<And>rs. sql_select (\<lambda>r. sql_eq (Some (o_id r)) (Some orderId)) rs
        = filter (\<lambda>r. o_id r = orderId) rs"
    by (rule sql_select_as_filter) (rule sql_eq_some)
  have u: "\<And>st rs. sql_update (\<lambda>r. sql_eq (Some (o_id r)) (Some orderId)) st rs
        = updateMany (\<lambda>r. o_id r = orderId) st rs"
    by (rule sql_update_as_updateMany) (rule sql_eq_some)
  have a: "\<And>sid l st rs. sql_update (\<lambda>r. sql_and (sql_eq (Some (show_id r)) (Some sid))
                                         (sql_any (Some (seat_code r)) l)) st rs
        = updateMany (\<lambda>r. show_id r = sid \<and> seat_code r \<in> set l) st rs"
    by (rule sql_update_as_updateMany) (simp add: sql_and_true sql_eq_some sql_any_some)
  have x: "\<And>u rs. sql_delete (\<lambda>r. sql_eq (Some (us_user_id r)) (Some u)) rs
        = filter (\<lambda>r. us_user_id r \<noteq> u) rs"
    by (rule sql_delete_as_filter) (rule sql_eq_some)
  show ?thesis
    unfolding approveOrder_sql_def approveOrder_def Let_def s u a x order_findUnique_def find_as_filter
    by (simp split: list.splits)
qed


lemma rejectOrder_sql_eq:
  "rejectOrder_sql orderId adminId d = rejectOrder orderId adminId d"
proof -
  have s: "\<And>rs. sql_select (\<lambda>r. sql_eq (Some (o_id r)) (Some orderId)) rs
        = filter (\<lambda>r. o_id r = orderId) rs"
    by (rule sql_select_as_filter) (rule sql_eq_some)
  have u: "\<And>st rs. sql_update (\<lambda>r. sql_eq (Some (o_id r)) (Some orderId)) st rs
        = updateMany (\<lambda>r. o_id r = orderId) st rs"
    by (rule sql_update_as_updateMany) (rule sql_eq_some)
  have a: "\<And>sid l st rs. sql_update (\<lambda>r. sql_and (sql_eq (Some (show_id r)) (Some sid))
                                         (sql_any (Some (seat_code r)) l)) st rs
        = updateMany (\<lambda>r. show_id r = sid \<and> seat_code r \<in> set l) st rs"
    by (rule sql_update_as_updateMany) (simp add: sql_and_true sql_eq_some sql_any_some)
  have x: "\<And>u rs. sql_delete (\<lambda>r. sql_eq (Some (us_user_id r)) (Some u)) rs
        = filter (\<lambda>r. us_user_id r \<noteq> u) rs"
    by (rule sql_delete_as_filter) (rule sql_eq_some)
  show ?thesis
    unfolding rejectOrder_sql_def rejectOrder_def Let_def s u a x order_findUnique_def find_as_filter
    by (simp split: list.splits)
qed

lemma prisma_lt_expired:
  "(status r = held \<and> prisma_lt (hold_until r) now) = hold_expired now r"
  by (cases "hold_until r") (simp_all add: prisma_lt_def hold_expired_def)

section \<open>The expiry of a new hold\<close>

lemma new_Date_whole: "\<bar>k\<bar> \<le> 8640000000000000 \<Longrightarrow> new_Date (of_int k) = Some k"
proof -
  assume "\<bar>k\<bar> \<le> 8640000000000000"
  then have "\<bar>of_int k :: rat\<bar> \<le> of_int 8640000000000000"
    unfolding of_int_abs [symmetric] of_int_le_iff by simp
  then show ?thesis
    by (simp add: new_Date_def js_trunc_def)
qed

lemma prisma_holdUntil_whole:
  assumes "exact_on_whole (fl P)"
    and "\<bar>m * 60 * 1000\<bar> \<le> 9007199254740992"
    and "\<bar>now' + m * 60 * 1000\<bar> \<le> 8640000000000000"
    and "stores_date P (now' + m * 60 * 1000)"
  shows "prisma_holdUntil P now' (Finite (of_int m)) = Inr (now' + m * 60 * 1000)"
proof -
  have ex: "\<And>n::int. \<bar>n\<bar> \<le> 9007199254740992 \<Longrightarrow> fl P (of_int n) = of_int n"
    using assms(1) by (simp add: exact_on_whole_def)
  have a: "fl P (of_int m * 60) = of_int (m * 60)"
    using ex [of "m * 60"] assms(2) by simp
  have b: "fl P (of_int (m * 60) * 1000) = of_int (m * 60 * 1000)"
    using ex [of "m * 60 * 1000"] assms(2) by simp
  have c: "fl P (of_int now' + of_int (m * 60 * 1000)) = of_int (now' + m * 60 * 1000)"
    using ex [of "now' + m * 60 * 1000"] assms(3) by simp
  show ?thesis
    unfolding prisma_holdUntil_def JSNumber.case a b c
    using assms(3,4) by (simp only: new_Date_whole option.case if_True)
qed

lemma sql_holdUntil_whole:
  "int32 m \<Longrightarrow> sql_holdUntil now (Finite (of_int m)) = Inr (now + m * 60 * 1000)"
  by (simp add: sql_holdUntil_def is_int32_def)

lemma int32_minutes_safe: "int32 m \<Longrightarrow> \<bar>m * 60 * 1000\<bar> \<le> 9007199254740992"
  by (simp add: int32_def abs_le_iff)


section \<open>Lookups after an update\<close>

lemma seat_findUnique_updateMany:
  assumes "\<And>r. show_id (f r) = show_id r \<and> seat_code (f r) = seat_code r"
  shows "seat_findUnique showId seatCode (updateMany P f rs)
         = map_option (\<lambda>r. if P r then f r else r) (seat_findUnique showId seatCode rs)"
  unfolding seat_findUnique_def updateMany_def
  by (induction rs) (auto simp: assms)

lemma seat_findUnique_on_seat:
  assumes "\<And>r. show_id (f r) = show_id r \<and> seat_code (f r) = seat_code r"
  shows "seat_findUnique sid code (seats (on_seat showId seatCode f d))
         = (if sid = showId \<and> code = seatCode
            then map_option f (seat_findUnique sid code (seats d))
            else seat_findUnique sid code (seats d))"
proof -
  have "seat_findUnique sid code (seats (on_seat showId seatCode f d))
        = map_option (\<lambda>r. if show_id r = showId \<and> seat_code r = seatCode then f r else r)
            (seat_findUnique sid code (seats d))"
    using seat_findUnique_updateMany [of f sid code "\<lambda>r. show_id r = showId \<and> seat_code r = seatCode" "seats d"] assms
    by (simp add: on_seat_def updateMany_def)
  moreover have "\<And>r. seat_findUnique sid code (seats d) = Some r \<Longrightarrow> show_id r = sid \<and> seat_code r = code"
    unfolding seat_findUnique_def by (auto simp: find_Some_iff)
  ultimately show ?thesis
    by (cases "seat_findUnique sid code (seats d)") auto
qed

lemma revert_expired_key:
  "show_id (revert_expired now r) = show_id r \<and> seat_code (revert_expired now r) = seat_code r"
  by (simp add: revert_expired_def released_def)

lemma toggle_release_step:
  "updateMany (\<lambda>r. show_id r = showId \<and> seat_code r = seatCode \<and> status r = held
                     \<and> prisma_lt (hold_until r) now)
     (\<lambda>r. r\<lparr>status := available, held_by := None, hold_until := None\<rparr>) rs
   = map (\<lambda>r. if show_id r = showId \<and> seat_code r = seatCode then revert_expired now r else r) rs"
  by (simp add: updateMany_def revert_expired_def released_def prisma_lt_expired)

lemma unique_seat_lookup:
  assumes "unique_seat d" and "seat_findUnique showId seatCode (seats d) = Some s0"
    and "r \<in> set (seats d)" and "show_id r = showId" and "seat_code r = seatCode"
  shows "r = s0"
proof -
  have s: "s0 \<in> set (seats d) \<and> show_id s0 = showId \<and> seat_code s0 = seatCode"
    using assms(2) unfolding seat_findUnique_def by (auto simp: find_Some_iff)
  have "inj_on (\<lambda>r. (show_id r, seat_code r)) (set (seats d))"
    using assms(1) by (simp add: unique_seat_def distinct_map)
  then show ?thesis
    using s assms(3,4,5) by (auto dest: inj_onD)
qed

lemma toggle_core:
  assumes "seat_findUnique showId seatCode (seats d) = Some s0"
    and "holder_named s0 \<or> held_by s0 = Some userId"
  shows "(let tx = d\<lparr>seats := updateMany
                  (\<lambda>r. show_id r = showId \<and> seat_code r = seatCode \<and> status r = held
                        \<and> prisma_lt (hold_until r) now)
                  (\<lambda>r. r\<lparr>status := available, held_by := None, hold_until := None\<rparr>)
                  (seats d)\<rparr>
      in case seat_findUnique showId seatCode (seats tx) of
           None \<Rightarrow> Inl SeatNotFound
         | Some seat \<Rightarrow>
             if status seat = sold then Inr (R_sold, tx)
             else if status seat = held \<and> truthy (held_by seat) \<and> held_by seat \<noteq> Some userId
               then Inr (R_held_by_other, tx)
             else if status seat = held \<and> held_by seat = Some userId
               then Inr (R_available,
                      tx\<lparr>seats := updateMany
                           (\<lambda>r. show_id r = showId \<and> seat_code r = seatCode)
                           (\<lambda>r. r\<lparr>status := available, held_by := None, hold_until := None\<rparr>)
                           (seats tx)\<rparr>)
             else
               (case expiry of
                  Inl e \<Rightarrow> Inl e
                | Inr holdUntil \<Rightarrow>
                    Inr (R_held,
                      tx\<lparr>seats := updateMany
                           (\<lambda>r. show_id r = showId \<and> seat_code r = seatCode)
                           (\<lambda>r. r\<lparr>status := held, held_by := Some userId,
                                   hold_until := Some holdUntil\<rparr>)
                           (seats tx)\<rparr>)))
         = toggle_cases expiry now showId seatCode userId s0 d"
proof -
  let ?tx = "on_seat showId seatCode (revert_expired now) d"
  have tx: "d\<lparr>seats := updateMany (\<lambda>r. show_id r = showId \<and> seat_code r = seatCode \<and> status r = held
                     \<and> prisma_lt (hold_until r) now)
     (\<lambda>r. r\<lparr>status := available, held_by := None, hold_until := None\<rparr>) (seats d)\<rparr> = ?tx"
    by (simp add: toggle_release_step on_seat_def)
  have look: "seat_findUnique showId seatCode (seats ?tx) = Some (revert_expired now s0)"
    using seat_findUnique_on_seat [of "revert_expired now" showId seatCode showId seatCode d] assms(1)
    by (simp add: revert_expired_key)
  have named: "status (revert_expired now s0) = held \<Longrightarrow>
      truthy (held_by (revert_expired now s0)) \<or> held_by (revert_expired now s0) = Some userId"
    using assms(2) by (auto simp: holder_named_def revert_expired_def released_def split: if_splits)
  show ?thesis
    unfolding Let_def tx look toggle_cases_def option.case
    using named
    by (cases "status (revert_expired now s0)")
       (auto simp: on_seat_def updateMany_def released_def split: sum.splits)
qed

lemma toggleSeat_as_cases:
  assumes "seat_findUnique showId seatCode (seats d) = Some s0"
    and "holder_named s0 \<or> held_by s0 = Some userId"
  shows "toggleSeat P now now' showId seatCode userId holdMinutes d
         = toggle_cases (prisma_holdUntil P now' holdMinutes) now showId seatCode userId s0 d"
  unfolding toggleSeat_def by (rule toggle_core [OF assms])

lemma toggleSeat_sql_as_cases:
  assumes "seat_findUnique showId seatCode (seats d) = Some s0"
    and "holder_named s0 \<or> held_by s0 = Some userId"
  shows "toggleSeat_sql now showId seatCode userId holdMinutes d
         = toggle_cases (sql_holdUntil now holdMinutes) now showId seatCode userId s0 d"
proof -
  have k: "\<And>st rs. sql_update (\<lambda>r. sql_and (sql_eq (Some (show_id r)) (Some showId))
                             (sql_eq (Some (seat_code r)) (Some seatCode))) st rs
        = updateMany (\<lambda>r. show_id r = showId \<and> seat_code r = seatCode) st rs"
    by (rule sql_update_as_updateMany) (rule sql_key_where)
  have e: "\<And>st rs. sql_update (\<lambda>r. sql_and (sql_and (sql_eq (Some (show_id r)) (Some showId))
                             (sql_eq (Some (seat_code r)) (Some seatCode)))
                        (sql_and (sql_eq (Some (status r)) (Some held))
                        (sql_and (sql_is_not_null (hold_until r))
                                 (sql_lt (hold_until r) (Some now))))) st rs
        = updateMany (\<lambda>r. show_id r = showId \<and> seat_code r = seatCode \<and> status r = held
                        \<and> prisma_lt (hold_until r) now) st rs"
    by (rule sql_update_as_updateMany) (simp add: sql_and_true sql_eq_some sql_not_null_lt)
  have s: "\<And>rs. sql_select (\<lambda>r. sql_and (sql_eq (Some (show_id r)) (Some showId))
                             (sql_eq (Some (seat_code r)) (Some seatCode))) rs
        = filter (\<lambda>r. show_id r = showId \<and> seat_code r = seatCode) rs"
    by (rule sql_select_as_filter) (rule sql_key_where)
  have "toggleSeat_sql now showId seatCode userId holdMinutes d
        = (let tx = d\<lparr>seats := updateMany
                  (\<lambda>r. show_id r = showId \<and> seat_code r = seatCode \<and> status r = held
                        \<and> prisma_lt (hold_until r) now)
                  (\<lambda>r. r\<lparr>status := available, held_by := None, hold_until := None\<rparr>)
                  (seats d)\<rparr>
      in case seat_findUnique showId seatCode (seats tx) of
           None \<Rightarrow> Inl SeatNotFound
         | Some seat \<Rightarrow>
             if status seat = sold then Inr (R_sold, tx)
             else if status seat = held \<and> truthy (held_by seat) \<and> held_by seat \<noteq> Some userId
               then Inr (R_held_by_other, tx)
             else if status seat = held \<and> held_by seat = Some userId
               then Inr (R_available,
                      tx\<lparr>seats := updateMany
                           (\<lambda>r. show_id r = showId \<and> seat_code r = seatCode)
                           (\<lambda>r. r\<lparr>status := available, held_by := None, hold_until := None\<rparr>)
                           (seats tx)\<rparr>)
             else
               (case sql_holdUntil now holdMinutes of
                  Inl e \<Rightarrow> Inl e
                | Inr holdUntil \<Rightarrow>
                    Inr (R_held,
                      tx\<lparr>seats := updateMany
                           (\<lambda>r. show_id r = showId \<and> seat_code r = seatCode)
                           (\<lambda>r. r\<lparr>status := held, held_by := Some userId,
                                   hold_until := Some holdUntil\<rparr>)
                           (seats tx)\<rparr>)))"
    unfolding toggleSeat_sql_def Let_def k e s seat_findUnique_def find_as_filter
    by (simp split: list.splits)
  then show ?thesis
    by (simp only: toggle_core [OF assms])
qed

lemma toggle_not_found:
  assumes "seat_findUnique showId seatCode (seats d) = None"
  shows "toggleSeat P now now' showId seatCode userId holdMinutes d = Inl SeatNotFound"
    and "toggleSeat_sql now showId seatCode userId holdMinutes d = Inl SeatNotFound"
proof -
  have none: "seat_findUnique showId seatCode
      (updateMany (\<lambda>r. show_id r = showId \<and> seat_code r = seatCode \<and> status r = held
                        \<and> prisma_lt (hold_until r) now)
         (\<lambda>r. r\<lparr>status := available, held_by := None, hold_until := None\<rparr>) (seats d)) = None"
    using assms by (simp add: seat_findUnique_updateMany)
  show p: "toggleSeat P now now' showId seatCode userId holdMinutes d = Inl SeatNotFound"
    by (simp add: toggleSeat_def none)
  have k: "\<And>st rs. sql_update (\<lambda>r. sql_and (sql_and (sql_eq (Some (show_id r)) (Some showId))
                             (sql_eq (Some (seat_code r)) (Some seatCode)))
                        (sql_and (sql_eq (Some (status r)) (Some held))
                        (sql_and (sql_is_not_null (hold_until r))
                                 (sql_lt (hold_until r) (Some now))))) st rs
        = updateMany (\<lambda>r. show_id r = showId \<and> seat_code r = seatCode \<and> status r = held
                        \<and> prisma_lt (hold_until r) now) st rs"
    by (rule sql_update_as_updateMany) (simp add: sql_and_true sql_eq_some sql_not_null_lt)
  have s: "\<And>rs. sql_select (\<lambda>r. sql_and (sql_eq (Some (show_id r)) (Some showId))
                             (sql_eq (Some (seat_code r)) (Some seatCode))) rs
        = filter (\<lambda>r. show_id r = showId \<and> seat_code r = seatCode) rs"
    by (rule sql_select_as_filter) (rule sql_key_where)
  have "filter (\<lambda>r. show_id r = showId \<and> seat_code r = seatCode)
      (updateMany (\<lambda>r. show_id r = showId \<and> seat_code r = seatCode \<and> status r = held
                        \<and> prisma_lt (hold_until r) now)
         (\<lambda>r. r\<lparr>status := available, held_by := None, hold_until := None\<rparr>) (seats d)) = []"
    using none unfolding seat_findUnique_def find_as_filter by (simp split: list.splits)
  then show "toggleSeat_sql now showId seatCode userId holdMinutes d = Inl SeatNotFound"
    unfolding toggleSeat_sql_def Let_def k s by simp
qed

lemma on_seat_unique:
  assumes "unique_seat d" and "seat_findUnique showId seatCode (seats d) = Some s0"
    and "f s0 = s0"
  shows "on_seat showId seatCode f d = d"
proof -
  have "\<And>r. r \<in> set (seats d) \<Longrightarrow> show_id r = showId \<Longrightarrow> seat_code r = seatCode \<Longrightarrow> r = s0"
    using unique_seat_lookup [OF assms(1,2)] by blast
  then have "map (\<lambda>r. if show_id r = showId \<and> seat_code r = seatCode then f r else r) (seats d)
             = seats d"
    using assms(3) by (intro map_idI) auto
  then show ?thesis
    by (simp add: on_seat_def)
qed


section \<open>Agreement of the two storage layers\<close>


text \<open>
  C10, as the code has it. From the same database and with the same arguments the
  SQL layer and the Prisma layer return the same result and leave the same database
  for releaseExpiredHolds, freezeHeldSeats, approveOrder and rejectOrder, and for
  toggleSeat when the seat does not exist, and when it is sold or held by a named
  holder. When toggleSeat has to write a new hold, the layers agree provided
  holdMinutes is a whole number of the 32-bit integer range, the Prisma call reads
  the same instant from the clock both times, as the SQL transaction does, and the
  expiry is a date that the Prisma layer stores.
\<close>

theorem storage_layers_agree:
  "releaseExpiredHolds_sql now showId d = releaseExpiredHolds now showId d
   \<and> freezeHeldSeats_sql showId userId d = freezeHeldSeats showId userId d
   \<and> approveOrder_sql now orderId adminId d = approveOrder now orderId adminId d
   \<and> rejectOrder_sql orderId adminId d = rejectOrder orderId adminId d
   \<and> (int32 m \<and> exact_on_whole (fl P) \<and> \<bar>now + m * 60 * 1000\<bar> \<le> 8640000000000000
        \<and> stores_date P (now + m * 60 * 1000) \<longrightarrow>
        toggleSeat_sql now showId seatCode userId (Finite (of_int m)) d
        = toggleSeat P now now showId seatCode userId (Finite (of_int m)) d)
   \<and> (seat_findUnique showId seatCode (seats d) = None \<longrightarrow>
        toggleSeat_sql now showId seatCode userId holdMinutes d
        = toggleSeat P now now showId seatCode userId holdMinutes d)
   \<and> (\<forall>s0. seat_findUnique showId seatCode (seats d) = Some s0 \<and> holder_named s0
             \<and> status (revert_expired now s0) \<noteq> available \<longrightarrow>
        toggleSeat_sql now showId seatCode userId holdMinutes d
        = toggleSeat P now now showId seatCode userId holdMinutes d)"
proof -
  have acquire: "int32 m \<and> exact_on_whole (fl P) \<and> \<bar>now + m * 60 * 1000\<bar> \<le> 8640000000000000
        \<and> stores_date P (now + m * 60 * 1000) \<longrightarrow>
        toggleSeat_sql now showId seatCode userId (Finite (of_int m)) d
        = toggleSeat P now now showId seatCode userId (Finite (of_int m)) d"
  proof
    assume h: "int32 m \<and> exact_on_whole (fl P) \<and> \<bar>now + m * 60 * 1000\<bar> \<le> 8640000000000000
        \<and> stores_date P (now + m * 60 * 1000)"
    have "sql_holdUntil now (Finite (of_int m)) = prisma_holdUntil P now (Finite (of_int m))"
      using h by (simp only: sql_holdUntil_whole prisma_holdUntil_whole int32_minutes_safe)
    then show "toggleSeat_sql now showId seatCode userId (Finite (of_int m)) d
        = toggleSeat P now now showId seatCode userId (Finite (of_int m)) d"
      by (rule toggleSeat_sql_eq)
  qed
  have absent: "seat_findUnique showId seatCode (seats d) = None \<longrightarrow>
        toggleSeat_sql now showId seatCode userId holdMinutes d
        = toggleSeat P now now showId seatCode userId holdMinutes d"
    by (simp add: toggle_not_found)
  have taken: "\<forall>s0. seat_findUnique showId seatCode (seats d) = Some s0 \<and> holder_named s0
             \<and> status (revert_expired now s0) \<noteq> available \<longrightarrow>
        toggleSeat_sql now showId seatCode userId holdMinutes d
        = toggleSeat P now now showId seatCode userId holdMinutes d"
  proof (intro allI impI)
    fix s0
    assume h: "seat_findUnique showId seatCode (seats d) = Some s0 \<and> holder_named s0
             \<and> status (revert_expired now s0) \<noteq> available"
    then have "toggle_cases (sql_holdUntil now holdMinutes) now showId seatCode userId s0 d
        = toggle_cases (prisma_holdUntil P now holdMinutes) now showId seatCode userId s0 d"
      by (cases "status (revert_expired now s0)") (simp_all add: toggle_cases_def)
    moreover have l: "seat_findUnique showId seatCode (seats d) = Some s0"
      and n: "holder_named s0 \<or> held_by s0 = Some userId"
      using h by simp_all
    ultimately show "toggleSeat_sql now showId seatCode userId holdMinutes d
        = toggleSeat P now now showId seatCode userId holdMinutes d"
      by (simp only: toggleSeat_as_cases [OF l n] toggleSeat_sql_as_cases [OF l n])
  qed
  show ?thesis
    by (intro conjI)
       (rule releaseExpiredHolds_sql_eq, rule freezeHeldSeats_sql_eq, rule approveOrder_sql_eq,
        rule rejectOrder_sql_eq, fact acquire, fact absent, fact taken)
qed

theorem storage_layers_agree_witness:
  "int32 10 \<and> exact_on_whole (fl example_platform)
   \<and> \<bar>(1000::int) + 10 * 60 * 1000\<bar> \<le> 8640000000000000
   \<and> stores_date example_platform (1000 + 10 * 60 * 1000)
   \<and> toggleSeat_sql 1000 1 ''A1'' ''u1'' (Finite (of_int 10)) small_show_db
     = toggleSeat example_platform 1000 1000 1 ''A1'' ''u1'' (Finite (of_int 10)) small_show_db
   \<and> map_sum id fst (toggleSeat_sql 1000 1 ''A1'' ''u1'' (Finite (of_int 10)) small_show_db)
     = Inr R_held
   \<and> approveOrder_sql 5000 2 ''admin'' double_order_db = approveOrder 5000 2 ''admin'' double_order_db
   \<and> map_option or_status (fst (approveOrder 5000 2 ''admin'' double_order_db)) = Some ''approved''"
proof -
  have h: "int32 10" "exact_on_whole (fl example_platform)"
    "\<bar>(1000::int) + 10 * 60 * 1000\<bar> \<le> 8640000000000000"
    "stores_date example_platform (1000 + 10 * 60 * 1000)"
    by (simp_all add: int32_def exact_on_whole_def example_platform_def)
  have t: "toggleSeat_sql 1000 1 ''A1'' ''u1'' (Finite (of_int 10)) small_show_db
     = toggleSeat example_platform 1000 1000 1 ''A1'' ''u1'' (Finite (of_int 10)) small_show_db"
    using storage_layers_agree [of 1000 1 small_show_db "''u1''" 2 "''admin''" 10 example_platform "''A1''"] h
    by blast
  have a: "map_sum id fst (toggleSeat_sql 1000 1 ''A1'' ''u1'' (Finite (of_int 10)) small_show_db)
     = Inr R_held"
    unfolding small_show_db_def by code_simp
  have b: "map_option or_status (fst (approveOrder 5000 2 ''admin'' double_order_db)) = Some ''approved''"
    unfolding double_order_db_def by code_simp
  have c: "approveOrder_sql 5000 2 ''admin'' double_order_db = approveOrder 5000 2 ''admin'' double_order_db"
    using storage_layers_agree [of 5000 1 double_order_db "''u1''" 2 "''admin''"] by blast
  show ?thesis
    using h t a b c by blast
qed

text \<open>
  The claim as worded fails where a new hold is written. With holdMinutes =
  2147483648 the Prisma layer gives the seat to the caller and the SQL layer fails,
  since \<^verbatim>\<open>make_interval\<close> takes an integer of 32 bits; with half a minute the same
  happens; and when the Prisma call reads the clock 3 ms later for the expiry than
  for the expired holds, the two expiries differ.
\<close>

theorem storage_layers_agree_counterexample:
  "map_sum id fst (toggleSeat example_platform 1000 1000 1 ''A1'' ''u1'' (Finite 2147483648) small_show_db)
     = Inr R_held
   \<and> toggleSeat_sql 1000 1 ''A1'' ''u1'' (Finite 2147483648) small_show_db = Inl InvalidInteger
   \<and> map_sum id fst (toggleSeat example_platform 1000 1000 1 ''A1'' ''u1'' (Finite (1 / 2)) small_show_db)
     = Inr R_held
   \<and> toggleSeat_sql 1000 1 ''A1'' ''u1'' (Finite (1 / 2)) small_show_db = Inl InvalidInteger
   \<and> map_sum id (\<lambda>p. map_option hold_until (seat_findUnique 1 ''A1'' (seats (snd p))))
        (toggleSeat example_platform 1000 1003 1 ''A1'' ''u1'' (Finite 10) small_show_db)
     = Inr (Some (Some 601003))
   \<and> map_sum id (\<lambda>p. map_option hold_until (seat_findUnique 1 ''A1'' (seats (snd p))))
        (toggleSeat_sql 1000 1 ''A1'' ''u1'' (Finite 10) small_show_db)
     = Inr (Some (Some 601000))"
  unfolding small_show_db_def by code_simp

text \<open>
  C5. releaseExpiredHolds resets to available, with holder and expiry cleared,
  exactly the seats of the show that are held with an expiry earlier than now; every
  other row of every table is as it was, and a held seat without expiry is never
  touched.
\<close>

theorem releaseExpiredHolds_exact:
  "releaseExpiredHolds now showId d
     = d\<lparr>seats := map (\<lambda>r. if show_id r = showId \<and> hold_expired now r then released r else r)
                      (seats d)\<rparr>
   \<and> releaseExpiredHolds_sql now showId d
     = d\<lparr>seats := map (\<lambda>r. if show_id r = showId \<and> hold_expired now r then released r else r)
                      (seats d)\<rparr>
   \<and> (\<forall>i < length (seats d).
        status (seats d ! i) = held \<and> hold_until (seats d ! i) = None
        \<longrightarrow> seats (releaseExpiredHolds now showId d) ! i = seats d ! i
          \<and> seats (releaseExpiredHolds_sql now showId d) ! i = seats d ! i)"
proof -
  have p: "releaseExpiredHolds now showId d
     = d\<lparr>seats := map (\<lambda>r. if show_id r = showId \<and> hold_expired now r then released r else r)
                      (seats d)\<rparr>"
    by (simp add: releaseExpiredHolds_def updateMany_def prisma_lt_expired released_def)
  have f: "\<forall>i < length (seats d).
        status (seats d ! i) = held \<and> hold_until (seats d ! i) = None
        \<longrightarrow> seats (releaseExpiredHolds now showId d) ! i = seats d ! i"
    by (simp add: p hold_expired_def)
  show ?thesis
    using p f by (simp add: releaseExpiredHolds_sql_eq)
qed


theorem releaseExpiredHolds_exact_witness:
  "1 < length (seats holds_db)
   \<and> status (seats holds_db ! 1) = held \<and> hold_until (seats holds_db ! 1) = None
   \<and> seats (releaseExpiredHolds 700000 1 holds_db) ! 1 = seats holds_db ! 1
   \<and> seats (releaseExpiredHolds_sql 700000 1 holds_db) ! 1 = seats holds_db ! 1
   \<and> map status (seats holds_db) = [held, held]
   \<and> map status (seats (releaseExpiredHolds 700000 1 holds_db)) = [available, held]"
proof -
  have a: "1 < length (seats holds_db)"
    unfolding holds_db_def by code_simp
  have b: "status (seats holds_db ! 1) = held \<and> hold_until (seats holds_db ! 1) = None"
    unfolding holds_db_def by code_simp
  have c: "map status (seats holds_db) = [held, held]"
    unfolding holds_db_def by code_simp
  have e: "map status (seats (releaseExpiredHolds 700000 1 holds_db)) = [available, held]"
    unfolding holds_db_def by code_simp
  have t: "seats (releaseExpiredHolds 700000 1 holds_db) ! 1 = seats holds_db ! 1
     \<and> seats (releaseExpiredHolds_sql 700000 1 holds_db) ! 1 = seats holds_db ! 1"
    using releaseExpiredHolds_exact [of 700000 1 holds_db] a b by blast
  show ?thesis
    using a b c e t by blast
qed


section \<open>Hold manager and order settlement\<close>

text \<open>
  C6. freezeHeldSeats sets the expiry to null on exactly the seats of the show that
  are held by the user, in both layers; the key, status, holder and buyer of every
  seat, and every other table, are as they were.
\<close>

theorem freezeHeldSeats_frame:
  "freezeHeldSeats showId userId d
     = d\<lparr>seats := map (\<lambda>r. if show_id r = showId \<and> status r = held \<and> held_by r = Some userId
                            then r\<lparr>hold_until := None\<rparr> else r) (seats d)\<rparr>
   \<and> freezeHeldSeats_sql showId userId d
     = d\<lparr>seats := map (\<lambda>r. if show_id r = showId \<and> status r = held \<and> held_by r = Some userId
                            then r\<lparr>hold_until := None\<rparr> else r) (seats d)\<rparr>
   \<and> map (\<lambda>r. (show_id r, seat_code r, status r, held_by r, buyer_id r))
         (seats (freezeHeldSeats showId userId d))
     = map (\<lambda>r. (show_id r, seat_code r, status r, held_by r, buyer_id r)) (seats d)"
proof -
  have c: "\<And>r. (show_id r = showId \<and> held_by r = Some userId \<and> status r = held)
             = (show_id r = showId \<and> status r = held \<and> held_by r = Some userId)"
    by blast
  have p: "freezeHeldSeats showId userId d
     = d\<lparr>seats := map (\<lambda>r. if show_id r = showId \<and> status r = held \<and> held_by r = Some userId
                            then r\<lparr>hold_until := None\<rparr> else r) (seats d)\<rparr>"
    by (simp add: freezeHeldSeats_def updateMany_def c)
  have m: "map (\<lambda>r. (show_id r, seat_code r, status r, held_by r, buyer_id r))
         (seats (freezeHeldSeats showId userId d))
     = map (\<lambda>r. (show_id r, seat_code r, status r, held_by r, buyer_id r)) (seats d)"
    by (simp add: p)
  show ?thesis
    using p m by (simp only: freezeHeldSeats_sql_eq simp_thms)
qed

theorem freezeHeldSeats_frame_witness:
  "map hold_until (seats unfrozen_db) = [Some 601000, Some 601000]
   \<and> map hold_until (seats (freezeHeldSeats 1 ''u2'' unfrozen_db)) = [Some 601000, None]
   \<and> map hold_until (seats (freezeHeldSeats_sql 1 ''u2'' unfrozen_db)) = [Some 601000, None]
   \<and> map (\<lambda>r. (show_id r, seat_code r, status r, held_by r, buyer_id r))
         (seats (freezeHeldSeats 1 ''u2'' unfrozen_db))
     = map (\<lambda>r. (show_id r, seat_code r, status r, held_by r, buyer_id r)) (seats unfrozen_db)"
proof -
  have a: "map hold_until (seats unfrozen_db) = [Some 601000, Some 601000]"
    unfolding unfrozen_db_def by code_simp
  have b: "map hold_until (seats (freezeHeldSeats 1 ''u2'' unfrozen_db)) = [Some 601000, None]"
    unfolding unfrozen_db_def by code_simp
  have e: "freezeHeldSeats_sql 1 ''u2'' unfrozen_db = freezeHeldSeats 1 ''u2'' unfrozen_db"
    using freezeHeldSeats_frame [of 1 "''u2''" unfrozen_db] by presburger
  have c: "map hold_until (seats (freezeHeldSeats_sql 1 ''u2'' unfrozen_db)) = [Some 601000, None]"
    using b e by presburger
  show ?thesis
    using a b c freezeHeldSeats_frame [of 1 "''u2''" unfrozen_db] by blast
qed



lemma is_int32_of_int: "is_int32 (of_int n) = int32 n"
  by (simp add: is_int32_def)

lemma is_int32_whole: "is_int32 q \<Longrightarrow> q = of_int \<lfloor>q\<rfloor> \<and> int32 \<lfloor>q\<rfloor>"
  by (simp add: is_int32_def)

lemma parseNumberField_Inr:
  "(parseNumberField v (Some m) = Inr q) = (v = Entry (Finite q) \<and> m \<le> q)"
  by (auto simp: parseNumberField_def split: NumberEntry.splits JSNumber.splits)

text \<open>
  C8. updateShowSettingsAction succeeds exactly when the operator is authenticated,
  the identifier is a whole number at least 1 and the price a whole number at least
  0, both within the range of an INTEGER column, and the show exists; it then has
  rewritten the price of that show and nothing else: the other columns of every show,
  the seats, the orders with their amounts, the sessions and the sequences are as
  they were. When it fails no write has been made.
\<close>

theorem updateShowSettingsAction_frame:
  "(updateShowSettingsAction authed showIdEntry priceEntry d = Inr d')
     = (authed \<and> (\<exists>showId price. showIdEntry = Entry (Finite (of_int showId)) \<and> 1 \<le> showId
          \<and> int32 showId \<and> priceEntry = Entry (Finite (of_int price)) \<and> 0 \<le> price
          \<and> int32 price \<and> show_exists showId d
          \<and> d' = d\<lparr>shows_tbl := map (\<lambda>r. if sh_id r = showId then r\<lparr>sh_price := price\<rparr> else r)
                                   (shows_tbl d)\<rparr>))
   \<and> (updateShowSettingsAction authed showIdEntry priceEntry d = Inr d' \<longrightarrow>
        seats d' = seats d
        \<and> orders d' = orders d
        \<and> map o_amount (orders d') = map o_amount (orders d)
        \<and> user_sessions d' = user_sessions d)"
proof -
  have frame: "updateShowSettingsAction authed showIdEntry priceEntry d = Inr d' \<longrightarrow>
        seats d' = seats d
        \<and> orders d' = orders d
        \<and> map o_amount (orders d') = map o_amount (orders d)
        \<and> user_sessions d' = user_sessions d"
    by (auto simp: updateShowSettingsAction_def split: if_splits sum.splits)
  have char: "(updateShowSettingsAction authed showIdEntry priceEntry d = Inr d')
     = (authed \<and> (\<exists>showId price. showIdEntry = Entry (Finite (of_int showId)) \<and> 1 \<le> showId
          \<and> int32 showId \<and> priceEntry = Entry (Finite (of_int price)) \<and> 0 \<le> price
          \<and> int32 price \<and> show_exists showId d
          \<and> d' = d\<lparr>shows_tbl := map (\<lambda>r. if sh_id r = showId then r\<lparr>sh_price := price\<rparr> else r)
                                   (shows_tbl d)\<rparr>))"
    (is "?L = ?R")
  proof
    assume l: ?L
    then have au: authed
      by (auto simp: updateShowSettingsAction_def split: if_splits)
    from l au obtain q p where q: "parseNumberField showIdEntry (Some 1) = Inr q"
      and p: "parseNumberField priceEntry (Some 0) = Inr p"
      by (auto simp: updateShowSettingsAction_def split: sum.splits)
    from l au q p have ok: "is_int32 q" "is_int32 p" "show_exists \<lfloor>q\<rfloor> d"
      and d': "d' = d\<lparr>shows_tbl := updateMany (\<lambda>r. sh_id r = \<lfloor>q\<rfloor>)
                                      (\<lambda>r. r\<lparr>sh_price := \<lfloor>p\<rfloor>\<rparr>) (shows_tbl d)\<rparr>"
      by (auto simp: updateShowSettingsAction_def split: if_splits)
    have qe: "showIdEntry = Entry (Finite (of_int \<lfloor>q\<rfloor>))" "1 \<le> \<lfloor>q\<rfloor>"
      using q is_int32_whole [OF ok(1)] by (auto simp: parseNumberField_Inr)
    have pe: "priceEntry = Entry (Finite (of_int \<lfloor>p\<rfloor>))" "0 \<le> \<lfloor>p\<rfloor>"
      using p is_int32_whole [OF ok(2)] by (auto simp: parseNumberField_Inr)
    have "showIdEntry = Entry (Finite (of_int \<lfloor>q\<rfloor>)) \<and> 1 \<le> \<lfloor>q\<rfloor>
          \<and> int32 \<lfloor>q\<rfloor> \<and> priceEntry = Entry (Finite (of_int \<lfloor>p\<rfloor>)) \<and> 0 \<le> \<lfloor>p\<rfloor>
          \<and> int32 \<lfloor>p\<rfloor> \<and> show_exists \<lfloor>q\<rfloor> d
          \<and> d' = d\<lparr>shows_tbl := map (\<lambda>r. if sh_id r = \<lfloor>q\<rfloor> then r\<lparr>sh_price := \<lfloor>p\<rfloor>\<rparr> else r)
                                   (shows_tbl d)\<rparr>"
      using qe pe ok(3) is_int32_whole [OF ok(1)] is_int32_whole [OF ok(2)] d'
      by (simp add: updateMany_def)
    then show ?R
      using au by blast
  next
    assume r: ?R
    then obtain showId price where au: authed
      and q: "showIdEntry = Entry (Finite (of_int showId))" "1 \<le> showId" "int32 showId"
      and p: "priceEntry = Entry (Finite (of_int price))" "0 \<le> price" "int32 price"
      and e: "show_exists showId d"
      and d': "d' = d\<lparr>shows_tbl := map (\<lambda>r. if sh_id r = showId then r\<lparr>sh_price := price\<rparr> else r)
                                   (shows_tbl d)\<rparr>"
      by blast
    have pq: "parseNumberField showIdEntry (Some 1) = Inr (of_int showId)"
      using q by (simp add: parseNumberField_Inr)
    have pp: "parseNumberField priceEntry (Some 0) = Inr (of_int price)"
      using p by (simp add: parseNumberField_Inr)
    show ?L
      using au q(3) p(3) e d'
      by (simp add: updateShowSettingsAction_def pq pp is_int32_of_int updateMany_def)
  qed
  show ?thesis
    using char frame by blast
qed

theorem updateShowSettingsAction_frame_witness:
  "map_sum id (\<lambda>d'. (map sh_price (shows_tbl d'), map o_amount (orders d')))
     (updateShowSettingsAction True (Entry (Finite 1)) (Entry (Finite 300000)) double_order_db)
     = Inr ([300000], [250000, 250000])
   \<and> map o_amount (orders double_order_db) = [250000, 250000]
   \<and> map sh_price (shows_tbl double_order_db) = [250000]"
proof -
  have r0: "map_sum id (\<lambda>d'. map sh_price (shows_tbl d'))
     (updateShowSettingsAction True (Entry (Finite 1)) (Entry (Finite 300000)) double_order_db)
     = Inr [300000]"
    unfolding double_order_db_def by code_simp
  then obtain d' where r: "updateShowSettingsAction True (Entry (Finite 1)) (Entry (Finite 300000))
        double_order_db = Inr d'"
    and p: "map sh_price (shows_tbl d') = [300000]"
    by (cases "updateShowSettingsAction True (Entry (Finite 1)) (Entry (Finite 300000)) double_order_db")
       auto
  have a: "map o_amount (orders double_order_db) = [250000, 250000]"
    unfolding double_order_db_def by code_simp
  have b: "map sh_price (shows_tbl double_order_db) = [250000]"
    unfolding double_order_db_def by code_simp
  have "map o_amount (orders d') = map o_amount (orders double_order_db)"
    using updateShowSettingsAction_frame
      [of True "Entry (Finite 1)" "Entry (Finite 300000)" double_order_db d'] r
    by blast
  then show ?thesis
    using r p a b by simp
qed




section \<open>Seat toggle engine\<close>




lemma round_trip_cases:
  assumes "seat_findUnique showId seatCode (seats d) = Some s0"
    and "status s0 = available"
    and "first d = toggle_cases (Inr t) now1 showId seatCode userId s0 d"
    and "\<And>d1 s1. seat_findUnique showId seatCode (seats d1) = Some s1 \<Longrightarrow>
           held_by s1 = Some userId \<Longrightarrow>
           second d1 = toggle_cases expiry now2 showId seatCode userId s1 d1"
    and "\<not> t < now2"
  shows "toggle_twice first second d
         = Inr (R_held, R_available, on_seat showId seatCode released d)"
proof -
  let ?acq = "\<lambda>r. r\<lparr>status := held, held_by := Some userId, hold_until := Some t\<rparr> :: SeatRecord"
  let ?d1 = "on_seat showId seatCode ?acq (on_seat showId seatCode (revert_expired now1) d)"
  have r0: "revert_expired now1 s0 = s0"
    using assms(2) by (simp add: revert_expired_def hold_expired_def)
  have one: "first d = Inr (R_held, ?d1)"
    using assms(2) by (simp add: assms(3) toggle_cases_def r0)
  have look1: "seat_findUnique showId seatCode (seats ?d1) = Some (?acq s0)"
    using assms(1) r0 by (simp add: seat_findUnique_on_seat revert_expired_key)
  have r1: "revert_expired now2 (?acq s0) = ?acq s0"
    using assms(5) by (simp add: revert_expired_def hold_expired_def)
  have keep: "on_seat showId seatCode (revert_expired now2) ?d1 = ?d1"
    using assms(5) by (simp add: on_seat_def revert_expired_def hold_expired_def cong: map_cong)
  have fin: "on_seat showId seatCode released ?d1 = on_seat showId seatCode released d"
    by (simp add: on_seat_def released_def revert_expired_def)
  have "second ?d1 = toggle_cases expiry now2 showId seatCode userId (?acq s0) ?d1"
    by (rule assms(4) [OF look1]) simp
  then have two: "second ?d1 = Inr (R_available, on_seat showId seatCode released d)"
    by (simp add: toggle_cases_def r1 keep fin)
  show ?thesis
    unfolding toggle_twice_def by (simp only: one two sum.case prod.case)
qed

text \<open>
  C7, as the code has it. On an existing available seat, two calls of toggleSeat by
  the same user return held and then available, provided the first call can write
  its expiry (in the Prisma layer a whole holdMinutes whose expiry is a valid date
  that it stores, in the SQL layer a whole holdMinutes of the 32-bit integer range)
  and the second call reads a clock that is not past that expiry; the seat is then
  available with no holder and no expiry, its other columns and every other row as
  before, so a database with unique seat keys whose seat had no holder and no expiry
  is back where it started.
\<close>

theorem toggle_round_trip:
  assumes "seat_findUnique showId seatCode (seats d) = Some s0"
    and "status s0 = available"
  shows "(exact_on_whole (fl P) \<and> \<bar>m * 60 * 1000\<bar> \<le> 9007199254740992
            \<and> \<bar>now1' + m * 60 * 1000\<bar> \<le> 8640000000000000
            \<and> stores_date P (now1' + m * 60 * 1000)
            \<and> \<not> now1' + m * 60 * 1000 < now2 \<longrightarrow>
            toggle_twice
              (toggleSeat P now1 now1' showId seatCode userId (Finite (of_int m)))
              (toggleSeat P now2 now2' showId seatCode userId (Finite (of_int m))) d
            = Inr (R_held, R_available, on_seat showId seatCode released d))
         \<and> (int32 m \<and> \<not> now1 + m * 60 * 1000 < now2 \<longrightarrow>
            toggle_twice
              (toggleSeat_sql now1 showId seatCode userId (Finite (of_int m)))
              (toggleSeat_sql now2 showId seatCode userId (Finite (of_int m))) d
            = Inr (R_held, R_available, on_seat showId seatCode released d))
         \<and> seat_findUnique showId seatCode (seats (on_seat showId seatCode released d))
           = Some (s0\<lparr>held_by := None, hold_until := None\<rparr>)
         \<and> (unique_seat d \<and> held_by s0 = None \<and> hold_until s0 = None
              \<longrightarrow> on_seat showId seatCode released d = d)"
proof -
  have n: "holder_named s0 \<or> held_by s0 = Some userId"
    using assms(2) by (simp add: holder_named_def)
  have prisma: "exact_on_whole (fl P) \<and> \<bar>m * 60 * 1000\<bar> \<le> 9007199254740992
            \<and> \<bar>now1' + m * 60 * 1000\<bar> \<le> 8640000000000000
            \<and> stores_date P (now1' + m * 60 * 1000)
            \<and> \<not> now1' + m * 60 * 1000 < now2 \<longrightarrow>
            toggle_twice
              (toggleSeat P now1 now1' showId seatCode userId (Finite (of_int m)))
              (toggleSeat P now2 now2' showId seatCode userId (Finite (of_int m))) d
            = Inr (R_held, R_available, on_seat showId seatCode released d)"
  proof
    assume h: "exact_on_whole (fl P) \<and> \<bar>m * 60 * 1000\<bar> \<le> 9007199254740992
            \<and> \<bar>now1' + m * 60 * 1000\<bar> \<le> 8640000000000000
            \<and> stores_date P (now1' + m * 60 * 1000)
            \<and> \<not> now1' + m * 60 * 1000 < now2"
    have e: "prisma_holdUntil P now1' (Finite (of_int m)) = Inr (now1' + m * 60 * 1000)"
      using h by (simp only: prisma_holdUntil_whole)
    have one: "toggleSeat P now1 now1' showId seatCode userId (Finite (of_int m)) d
        = toggle_cases (Inr (now1' + m * 60 * 1000)) now1 showId seatCode userId s0 d"
      by (simp only: toggleSeat_as_cases [OF assms(1) n] e)
    show "toggle_twice
              (toggleSeat P now1 now1' showId seatCode userId (Finite (of_int m)))
              (toggleSeat P now2 now2' showId seatCode userId (Finite (of_int m))) d
            = Inr (R_held, R_available, on_seat showId seatCode released d)"
      using assms one
    proof (rule round_trip_cases)
      show "\<not> now1' + m * 60 * 1000 < now2"
        using h by blast
    next
      fix d1 :: db and s1
      assume "seat_findUnique showId seatCode (seats d1) = Some s1" and "held_by s1 = Some userId"
      then show "toggleSeat P now2 now2' showId seatCode userId (Finite (of_int m)) d1
        = toggle_cases (prisma_holdUntil P now2' (Finite (of_int m))) now2 showId seatCode userId s1 d1"
        by (intro toggleSeat_as_cases) simp_all
    qed
  qed
  have sql: "int32 m \<and> \<not> now1 + m * 60 * 1000 < now2 \<longrightarrow>
            toggle_twice
              (toggleSeat_sql now1 showId seatCode userId (Finite (of_int m)))
              (toggleSeat_sql now2 showId seatCode userId (Finite (of_int m))) d
            = Inr (R_held, R_available, on_seat showId seatCode released d)"
  proof
    assume h: "int32 m \<and> \<not> now1 + m * 60 * 1000 < now2"
    have e: "sql_holdUntil now1 (Finite (of_int m)) = Inr (now1 + m * 60 * 1000)"
      using h by (simp only: sql_holdUntil_whole)
    have one: "toggleSeat_sql now1 showId seatCode userId (Finite (of_int m)) d
        = toggle_cases (Inr (now1 + m * 60 * 1000)) now1 showId seatCode userId s0 d"
      by (simp only: toggleSeat_sql_as_cases [OF assms(1) n] e)
    show "toggle_twice
              (toggleSeat_sql now1 showId seatCode userId (Finite (of_int m)))
              (toggleSeat_sql now2 showId seatCode userId (Finite (of_int m))) d
            = Inr (R_held, R_available, on_seat showId seatCode released d)"
      using assms one
    proof (rule round_trip_cases)
      show "\<not> now1 + m * 60 * 1000 < now2"
        using h by blast
    next
      fix d1 :: db and s1
      assume "seat_findUnique showId seatCode (seats d1) = Some s1" and "held_by s1 = Some userId"
      then show "toggleSeat_sql now2 showId seatCode userId (Finite (of_int m)) d1
        = toggle_cases (sql_holdUntil now2 (Finite (of_int m))) now2 showId seatCode userId s1 d1"
        by (intro toggleSeat_sql_as_cases) simp_all
    qed
  qed
  have b: "seat_findUnique showId seatCode (seats (on_seat showId seatCode released d))
           = Some (s0\<lparr>held_by := None, hold_until := None\<rparr>)"
    using assms(1,2)
    by (simp add: seat_findUnique_on_seat released_def)
  have c: "unique_seat d \<and> held_by s0 = None \<and> hold_until s0 = None
              \<longrightarrow> on_seat showId seatCode released d = d"
    using on_seat_unique [OF _ assms(1), of released] assms(2)
    by (simp add: released_def)
  show ?thesis
    by (intro conjI) (fact prisma, fact sql, fact b, fact c)
qed

theorem toggle_round_trip_witness:
  "seat_findUnique 1 ''A1'' (seats small_show_db)
     = Some \<lparr>show_id = 1, seat_code = ''A1'', status = available,
             held_by = None, hold_until = None, buyer_id = None\<rparr>
   \<and> exact_on_whole (fl example_platform) \<and> int32 10
   \<and> stores_date example_platform (1000 + 10 * 60 * 1000)
   \<and> \<not> (1000::int) + 10 * 60 * 1000 < 2000
   \<and> toggle_twice
        (toggleSeat example_platform 1000 1000 1 ''A1'' ''u1'' (Finite (of_int 10)))
        (toggleSeat example_platform 2000 2000 1 ''A1'' ''u1'' (Finite (of_int 10))) small_show_db
     = Inr (R_held, R_available, small_show_db)
   \<and> toggle_twice
        (toggleSeat_sql 1000 1 ''A1'' ''u1'' (Finite (of_int 10)))
        (toggleSeat_sql 2000 1 ''A1'' ''u1'' (Finite (of_int 10))) small_show_db
     = Inr (R_held, R_available, small_show_db)"
proof -
  have l: "seat_findUnique 1 ''A1'' (seats small_show_db)
     = Some \<lparr>show_id = 1, seat_code = ''A1'', status = available,
             held_by = None, hold_until = None, buyer_id = None\<rparr>"
    unfolding small_show_db_def by code_simp
  have u: "unique_seat small_show_db"
    unfolding small_show_db_def by code_simp
  have h: "exact_on_whole (fl example_platform)" "int32 10"
    "stores_date example_platform (1000 + 10 * 60 * 1000)"
    "\<not> (1000::int) + 10 * 60 * 1000 < 2000"
    "\<bar>(10::int) * 60 * 1000\<bar> \<le> 9007199254740992"
    "\<bar>(1000::int) + 10 * 60 * 1000\<bar> \<le> 8640000000000000"
    by (simp_all add: int32_def exact_on_whole_def example_platform_def)
  note T = toggle_round_trip [OF l, of example_platform 10 1000 2000 1000 "''u1''" 2000]
  have s: "status \<lparr>show_id = 1, seat_code = ''A1'', status = available,
             held_by = None, hold_until = None, buyer_id = None\<rparr> = available"
    by simp
  have restored: "on_seat 1 ''A1'' released small_show_db = small_show_db"
    using T [OF s] u by simp
  have p: "toggle_twice
        (toggleSeat example_platform 1000 1000 1 ''A1'' ''u1'' (Finite (of_int 10)))
        (toggleSeat example_platform 2000 2000 1 ''A1'' ''u1'' (Finite (of_int 10))) small_show_db
     = Inr (R_held, R_available, on_seat 1 ''A1'' released small_show_db)"
    using T [OF s] h by blast
  have q: "toggle_twice
        (toggleSeat_sql 1000 1 ''A1'' ''u1'' (Finite (of_int 10)))
        (toggleSeat_sql 2000 1 ''A1'' ''u1'' (Finite (of_int 10))) small_show_db
     = Inr (R_held, R_available, on_seat 1 ''A1'' released small_show_db)"
    using T [OF s] h by blast
  show ?thesis
    using l h p q unfolding restored by blast
qed

text \<open>
  The claim as worded fails when the hold of the first call has expired before the
  second: ten minutes and a millisecond later, or a millisecond later under a hold
  of zero minutes, the second call acquires the seat again and returns held.
\<close>

theorem toggle_round_trip_counterexample:
  "map_option (\<lambda>r. (status r, held_by r, hold_until r))
       (seat_findUnique 1 ''A1'' (seats small_show_db))
     = Some (available, None, None)
   \<and> map_sum id (\<lambda>p. (fst p, fst (snd p)))
       (toggle_twice
          (toggleSeat example_platform 1000 1000 1 ''A1'' ''u1'' (Finite 10))
          (toggleSeat example_platform 601001 601001 1 ''A1'' ''u1'' (Finite 10)) small_show_db)
     = Inr (R_held, R_held)
   \<and> map_sum id (\<lambda>p. (fst p, fst (snd p)))
       (toggle_twice
          (toggleSeat example_platform 1000 1000 1 ''A1'' ''u1'' (Finite 0))
          (toggleSeat example_platform 1001 1001 1 ''A1'' ''u1'' (Finite 0)) small_show_db)
     = Inr (R_held, R_held)
   \<and> map_sum id (\<lambda>p. (fst p, fst (snd p)))
       (toggle_twice
          (toggleSeat_sql 1000 1 ''A1'' ''u1'' (Finite 10))
          (toggleSeat_sql 601001 1 ''A1'' ''u1'' (Finite 10)) small_show_db)
     = Inr (R_held, R_held)
   \<and> map_sum id (\<lambda>p. map_option (\<lambda>r. (status r, held_by r, hold_until r))
                        (seat_findUnique 1 ''A1'' (seats (snd (snd p)))))
       (toggle_twice
          (toggleSeat example_platform 1000 1000 1 ''A1'' ''u1'' (Finite 10))
          (toggleSeat example_platform 601001 601001 1 ''A1'' ''u1'' (Finite 10)) small_show_db)
     = Inr (Some (held, Some ''u1'', Some 1201001))"
  unfolding small_show_db_def by code_simp

section \<open>Settlement of a pending order\<close>

lemma split_on_plain: "c \<notin> set x \<Longrightarrow> split_on c x = [x]"
  by (induction x) auto

lemma split_on_append: "c \<notin> set x \<Longrightarrow> split_on c (x @ c # rest) = x # split_on c rest"
  by (induction x) auto

lemma split_join:
  "xs \<noteq> [] \<Longrightarrow> \<forall>x \<in> set xs. c \<notin> set x \<Longrightarrow> split_on c (join_with c xs) = xs"
  by (induction c xs rule: join_with.induct) (simp_all add: split_on_plain split_on_append)

lemma order_seat_list_join:
  assumes "\<forall>code \<in> set codes. plain_code code"
  shows "order_seat_list (join_with CHR '','' codes) = codes"
proof (cases "codes = []")
  case True
  then show ?thesis
    by (simp add: order_seat_list_def truthy_string_def)
next
  case False
  then have "split_on CHR '','' (join_with CHR '','' codes) = codes"
    using assms by (intro split_join) (auto simp: plain_code_def)
  moreover have "filter truthy_string codes = codes"
    using assms by (auto simp: plain_code_def truthy_string_def filter_id_conv)
  ultimately show ?thesis
    by (simp add: order_seat_list_def)
qed

lemma find_snoc:
  "find P (xs @ [x]) = (case find P xs of Some y \<Rightarrow> Some y | None \<Rightarrow> if P x then Some x else None)"
  by (induction xs) simp_all

lemma createOrder_stores:
  assumes "orders_below_seq d" and "createOrder now params d = (Inr newId, d')"
  shows "\<exists>order. order_findUnique newId (orders d') = Some order
           \<and> o_status order = ''pending'' \<and> o_user_id order = p_userId params
           \<and> o_show_id order = p_showId params \<and> o_amount order = p_amount params
           \<and> o_seats order = join_with CHR '','' (p_seats params)"
proof -
  have new: "newId = orders_id_seq d + 1"
    and d': "d' = d\<lparr>orders := orders d @
        [\<lparr>o_id = newId, o_user_id = p_userId params, o_show_id = p_showId params,
          o_seats = join_with CHR '','' (p_seats params), o_amount = p_amount params,
          o_receipt_type = p_receiptType params, o_receipt_ref = p_receiptRef params,
          o_status = ''pending'', o_created_at = now, o_paid_at = None, o_admin_id = None\<rparr>],
        orders_id_seq := newId\<rparr>"
    using assms(2) by (auto simp: createOrder_def Let_def split: if_splits)
  have "find (\<lambda>r. o_id r = newId) (orders d) = None"
    using assms(1) new by (auto simp: find_None_iff orders_below_seq_def)
  then show ?thesis
    unfolding d' order_findUnique_def by (simp add: find_snoc)
qed

lemma seat_findUnique_on_seat_codes:
  assumes "\<And>r. show_id (f r) = show_id r \<and> seat_code (f r) = seat_code r"
    and "seat_findUnique showId code rs = Some r"
  shows "seat_findUnique showId code (on_seat_codes showId codes f rs)
         = Some (if code \<in> set codes then f r else r)"
proof -
  have key: "show_id r = showId \<and> seat_code r = code"
    using assms(2) unfolding seat_findUnique_def by (auto simp: find_Some_iff)
  have "on_seat_codes showId codes f rs
        = updateMany (\<lambda>r. show_id r = showId \<and> seat_code r \<in> set codes) f rs"
    by (simp add: on_seat_codes_def updateMany_def)
  then show ?thesis
    using seat_findUnique_updateMany
      [of f showId code "\<lambda>r. show_id r = showId \<and> seat_code r \<in> set codes" rs] assms key
    by simp
qed

lemma approveOrder_pending:
  assumes "order_findUnique orderId (orders d) = Some order" and "o_status order = ''pending''"
  shows "approveOrder now orderId adminId d =
     (Some (to_OrderRecord order (order_seat_list (o_seats order)) ''approved''),
      d\<lparr>seats := on_seat_codes (o_show_id order) (order_seat_list (o_seats order))
                    (\<lambda>r. r\<lparr>status := sold, buyer_id := Some (o_user_id order),
                            held_by := None, hold_until := None\<rparr>) (seats d),
        orders := updateMany (\<lambda>r. o_id r = orderId)
                    (\<lambda>r. r\<lparr>o_status := ''approved'', o_paid_at := Some now,
                            o_admin_id := Some adminId\<rparr>) (orders d),
        user_sessions := filter (\<lambda>r. us_user_id r \<noteq> o_user_id order) (user_sessions d)\<rparr>)"
proof (cases "order_seat_list (o_seats order) = []")
  case True
  then show ?thesis
    using assms by (simp add: approveOrder_def on_seat_codes_def)
next
  case False
  then show ?thesis
    using assms by (simp add: approveOrder_def Let_def on_seat_codes_def updateMany_def)
qed

lemma rejectOrder_pending:
  assumes "order_findUnique orderId (orders d) = Some order" and "o_status order = ''pending''"
  shows "rejectOrder orderId adminId d =
     (Some (to_OrderRecord order (order_seat_list (o_seats order)) ''rejected''),
      d\<lparr>seats := on_seat_codes (o_show_id order) (order_seat_list (o_seats order))
                    (\<lambda>r. r\<lparr>status := available, held_by := None, hold_until := None\<rparr>) (seats d),
        orders := updateMany (\<lambda>r. o_id r = orderId)
                    (\<lambda>r. r\<lparr>o_status := ''rejected'', o_admin_id := Some adminId\<rparr>) (orders d),
        user_sessions := filter (\<lambda>r. us_user_id r \<noteq> o_user_id order) (user_sessions d)\<rparr>)"
proof (cases "order_seat_list (o_seats order) = []")
  case True
  then show ?thesis
    using assms by (simp add: rejectOrder_def on_seat_codes_def)
next
  case False
  then show ?thesis
    using assms by (simp add: rejectOrder_def Let_def on_seat_codes_def updateMany_def)
qed

text \<open>
  C3, as the code has it. Let a pending order hold the seat list that createOrder
  stored for it, a list of seat codes without commas, none of them empty.
  Approving the order rewrites every seat row of the order's show whose code is in
  that list to sold, with the order's user as buyer and holder and expiry null:
  each seat of the list that exists is found so afterwards. Rejecting the order
  rewrites those rows to available with holder and expiry null, and leaves the
  buyer column of every row as it was. No other seat row changes. Both layers.
\<close>

theorem settle_pending_seats:
  assumes "order_findUnique orderId (orders d) = Some order" and "o_status order = ''pending''"
    and "o_seats order = join_with CHR '','' seatList"
    and "\<forall>code \<in> set seatList. plain_code code"
  shows "(\<forall>approved \<in> {approveOrder now orderId adminId d, approveOrder_sql now orderId adminId d}.
            seats (snd approved)
              = on_seat_codes (o_show_id order) seatList
                  (\<lambda>r. r\<lparr>status := sold, buyer_id := Some (o_user_id order),
                          held_by := None, hold_until := None\<rparr>) (seats d)
            \<and> (\<forall>code \<in> set seatList. \<forall>r.
                  seat_findUnique (o_show_id order) code (seats d) = Some r \<longrightarrow>
                  seat_findUnique (o_show_id order) code (seats (snd approved))
                    = Some (r\<lparr>status := sold, buyer_id := Some (o_user_id order),
                              held_by := None, hold_until := None\<rparr>)))
         \<and> (\<forall>rejected \<in> {rejectOrder orderId adminId d, rejectOrder_sql orderId adminId d}.
            seats (snd rejected)
              = on_seat_codes (o_show_id order) seatList
                  (\<lambda>r. r\<lparr>status := available, held_by := None, hold_until := None\<rparr>) (seats d)
            \<and> (\<forall>code \<in> set seatList. \<forall>r.
                  seat_findUnique (o_show_id order) code (seats d) = Some r \<longrightarrow>
                  seat_findUnique (o_show_id order) code (seats (snd rejected))
                    = Some (r\<lparr>status := available, held_by := None, hold_until := None\<rparr>))
            \<and> map buyer_id (seats (snd rejected)) = map buyer_id (seats d))"
proof -
  have l: "order_seat_list (o_seats order) = seatList"
    using assms(3,4) by (simp add: order_seat_list_join)
  have a: "seats (snd (approveOrder now orderId adminId d))
           = on_seat_codes (o_show_id order) seatList
               (\<lambda>r. r\<lparr>status := sold, buyer_id := Some (o_user_id order),
                       held_by := None, hold_until := None\<rparr>) (seats d)"
    by (simp add: approveOrder_pending [OF assms(1,2)] l)
  have r: "seats (snd (rejectOrder orderId adminId d))
           = on_seat_codes (o_show_id order) seatList
               (\<lambda>r. r\<lparr>status := available, held_by := None, hold_until := None\<rparr>) (seats d)"
    by (simp add: rejectOrder_pending [OF assms(1,2)] l)
  have b: "map buyer_id (seats (snd (rejectOrder orderId adminId d))) = map buyer_id (seats d)"
    unfolding r by (simp add: on_seat_codes_def)
  have la: "\<forall>code \<in> set seatList. \<forall>r.
                  seat_findUnique (o_show_id order) code (seats d) = Some r \<longrightarrow>
                  seat_findUnique (o_show_id order) code (seats (snd (approveOrder now orderId adminId d)))
                    = Some (r\<lparr>status := sold, buyer_id := Some (o_user_id order),
                              held_by := None, hold_until := None\<rparr>)"
    unfolding a by (simp add: seat_findUnique_on_seat_codes)
  have lr: "\<forall>code \<in> set seatList. \<forall>r.
                  seat_findUnique (o_show_id order) code (seats d) = Some r \<longrightarrow>
                  seat_findUnique (o_show_id order) code (seats (snd (rejectOrder orderId adminId d)))
                    = Some (r\<lparr>status := available, held_by := None, hold_until := None\<rparr>)"
    unfolding r by (simp add: seat_findUnique_on_seat_codes)
  show ?thesis
    unfolding approveOrder_sql_eq rejectOrder_sql_eq
    using a r b la lr by simp
qed

theorem settle_pending_seats_witness:
  "map_option (\<lambda>r. (o_status r, o_show_id r, o_user_id r, o_seats r))
       (order_findUnique 1 (orders unsettled_db))
     = Some (''pending'', 1, ''u1'', ''A1,A2'')
   \<and> join_with CHR '','' [''A1'', ''A2''] = ''A1,A2''
   \<and> plain_code ''A1'' \<and> plain_code ''A2''
   \<and> map (\<lambda>r. (seat_code r, status r, held_by r, hold_until r, buyer_id r)) (seats unsettled_db)
     = [(''A1'', held, Some ''u1'', None, None), (''A2'', held, Some ''u1'', None, None),
        (''A3'', held, Some ''u2'', Some 601000, None)]
   \<and> map (\<lambda>r. (seat_code r, status r, held_by r, hold_until r, buyer_id r))
         (seats (snd (approveOrder 4000 1 ''admin-dashboard'' unsettled_db)))
     = [(''A1'', sold, None, None, Some ''u1''), (''A2'', sold, None, None, Some ''u1''),
        (''A3'', held, Some ''u2'', Some 601000, None)]
   \<and> map (\<lambda>r. (seat_code r, status r, held_by r, hold_until r, buyer_id r))
         (seats (snd (rejectOrder_sql 1 ''admin-dashboard'' unsettled_db)))
     = [(''A1'', available, None, None, None), (''A2'', available, None, None, None),
        (''A3'', held, Some ''u2'', Some 601000, None)]"
proof -
  have o: "map_option (\<lambda>r. (o_status r, o_show_id r, o_user_id r, o_seats r))
       (order_findUnique 1 (orders unsettled_db))
     = Some (''pending'', 1, ''u1'', ''A1,A2'')"
    unfolding unsettled_db_def by code_simp
  then obtain order where f: "order_findUnique 1 (orders unsettled_db) = Some order"
    and p: "o_status order = ''pending''" and s: "o_show_id order = 1"
    and u: "o_user_id order = ''u1''" and t: "o_seats order = ''A1,A2''"
    by auto
  have j: "join_with CHR '','' [''A1'', ''A2''] = ''A1,A2''"
    by simp
  have pc: "plain_code ''A1''" "plain_code ''A2''"
    by (simp_all add: plain_code_def)
  have l: "o_seats order = join_with CHR '','' [''A1'', ''A2'']"
    by (simp add: t)
  have c: "\<forall>code \<in> set [''A1'', ''A2'']. plain_code code"
    using pc by simp
  have rows: "seats unsettled_db
     = [\<lparr>show_id = 1, seat_code = ''A1'', status = held, held_by = Some ''u1'',
          hold_until = None, buyer_id = None\<rparr>,
        \<lparr>show_id = 1, seat_code = ''A2'', status = held, held_by = Some ''u1'',
          hold_until = None, buyer_id = None\<rparr>,
        \<lparr>show_id = 1, seat_code = ''A3'', status = held, held_by = Some ''u2'',
          hold_until = Some 601000, buyer_id = None\<rparr>]"
    unfolding unsettled_db_def by code_simp
  note T = settle_pending_seats [OF f p l c, of 4000 "''admin-dashboard''"]
  have a: "seats (snd (approveOrder 4000 1 ''admin-dashboard'' unsettled_db))
     = on_seat_codes 1 [''A1'', ''A2'']
         (\<lambda>r. r\<lparr>status := sold, buyer_id := Some ''u1'', held_by := None, hold_until := None\<rparr>)
         (seats unsettled_db)"
    using T by (simp add: s u)
  have r: "seats (snd (rejectOrder_sql 1 ''admin-dashboard'' unsettled_db))
     = on_seat_codes 1 [''A1'', ''A2'']
         (\<lambda>r. r\<lparr>status := available, held_by := None, hold_until := None\<rparr>)
         (seats unsettled_db)"
    using T by (simp add: s)
  show ?thesis
    using o j pc by (simp add: a r rows on_seat_codes_def)
qed

text \<open>
  The claim as worded fails for the rejection: the receipt of seat A1 was sent twice,
  order 1 was approved, and rejecting the pending order 2 makes A1 available while
  its buyer is still u1.
\<close>

theorem rejectOrder_keeps_buyer_counterexample:
  "map_option (\<lambda>r. (o_status r, o_show_id r, order_seat_list (o_seats r)))
       (order_findUnique 2 (orders double_order_db))
     = Some (''pending'', 1, [''A1''])
   \<and> map_option (\<lambda>r. (status r, held_by r, hold_until r, buyer_id r))
       (seat_findUnique 1 ''A1'' (seats (snd (rejectOrder 2 ''admin-dashboard'' double_order_db))))
     = Some (available, None, None, Some ''u1'')
   \<and> map_option (\<lambda>r. (status r, held_by r, hold_until r, buyer_id r))
       (seat_findUnique 1 ''A1'' (seats (snd (rejectOrder_sql 2 ''admin-dashboard'' double_order_db))))
     = Some (available, None, None, Some ''u1'')"
  unfolding double_order_db_def by code_simp


section \<open>Seat states that the operations can reach\<close>

lemma sql_insert_seats_eq:
  "sql_insert_seats (map (\<lambda>code. (showId, code, available)) codes) rs
   = seat_createMany (map (\<lambda>code. (showId, code)) codes) rs"
proof (induction codes arbitrary: rs)
  case Nil
  show ?case by simp
next
  case (Cons c codes)
  have "(sql_select (\<lambda>r. sql_and (sql_eq (Some (show_id r)) (Some showId))
                                   (sql_eq (Some (seat_code r)) (Some c))) rs = [])
        = (seat_findUnique showId c rs = None)"
    by (simp add: sql_select_as_filter [OF sql_key_where] seat_findUnique_def find_as_filter
          split: list.splits)
  then show ?case
    by (simp add: Cons.IH seat_defaults_def)
qed

lemma seedSeats_sql_eq: "seedSeats_sql showId rows cols d = seedSeats showId rows cols d"
  by (simp add: seedSeats_sql_def seedSeats_def sql_insert_seats_eq)

lemma kept_updateMany:
  assumes "list_all I rs" and "\<And>r. I r \<Longrightarrow> P r \<Longrightarrow> I (f r)"
  shows "list_all I (updateMany P f rs)"
  using assms by (induction rs) (simp_all add: updateMany_def)

lemma kept_sql_update:
  assumes "list_all I rs" and "\<And>r. I r \<Longrightarrow> wh r = Some True \<Longrightarrow> I (f r)"
  shows "list_all I (sql_update wh f rs)"
  using assms by (induction rs) (simp_all add: sql_update_def)

lemma kept_createMany:
  assumes "kept_by_writes I"
  shows "list_all I rs \<Longrightarrow> list_all I (seat_createMany data rs)"
proof (induction data rs rule: seat_createMany.induct)
  case (1 rs)
  then show ?case by simp
next
  case (2 showId seatCode data rs)
  have "I (seat_defaults showId seatCode)"
    using assms by (simp add: kept_by_writes_def)
  with 2 show ?case by simp
qed

lemma kept_releaseExpiredHolds:
  "kept_by_writes I \<Longrightarrow> list_all I (seats d) \<Longrightarrow>
   list_all I (seats (releaseExpiredHolds now showId d))"
  unfolding releaseExpiredHolds_def
  by (simp add: kept_updateMany kept_by_writes_def)

lemma kept_freezeHeldSeats:
  "kept_by_writes I \<Longrightarrow> list_all I (seats d) \<Longrightarrow>
   list_all I (seats (freezeHeldSeats showId userId d))"
  unfolding freezeHeldSeats_def
  by (auto intro!: kept_updateMany simp: kept_by_writes_def)

lemma kept_toggleSeat:
  assumes "kept_by_writes I" and "kept_by_hold I userId" and "list_all I (seats d)"
    and "toggleSeat P now now' showId seatCode userId holdMinutes d = Inr (res, d')"
  shows "list_all I (seats d')"
proof -
  let ?tx = "updateMany (\<lambda>r. show_id r = showId \<and> seat_code r = seatCode \<and> status r = held
                              \<and> prisma_lt (hold_until r) now)
               (\<lambda>r. r\<lparr>status := available, held_by := None, hold_until := None\<rparr>) (seats d)"
  have tx: "list_all I ?tx"
    using assms(1,3) by (simp add: kept_updateMany kept_by_writes_def)
  have rel: "list_all I
        (updateMany (\<lambda>r. show_id r = showId \<and> seat_code r = seatCode)
           (\<lambda>r. r\<lparr>status := available, held_by := None, hold_until := None\<rparr>) ?tx)"
    using tx assms(1) by (simp add: kept_updateMany kept_by_writes_def)
  have acq: "\<And>t. list_all I
        (updateMany (\<lambda>r. show_id r = showId \<and> seat_code r = seatCode)
           (\<lambda>r. r\<lparr>status := held, held_by := Some userId, hold_until := Some t\<rparr>) ?tx)"
    using tx assms(2) by (simp add: kept_updateMany kept_by_hold_def)
  show ?thesis
    using assms(4) tx rel acq
    unfolding toggleSeat_def Let_def
    by (auto split: option.splits if_splits sum.splits)
qed

lemma kept_toggleSeat_sql:
  assumes "kept_by_writes I" and "kept_by_hold I userId" and "list_all I (seats d)"
    and "toggleSeat_sql now showId seatCode userId holdMinutes d = Inr (res, d')"
  shows "list_all I (seats d')"
proof -
  let ?key = "\<lambda>r. sql_and (sql_eq (Some (show_id r)) (Some showId))
                          (sql_eq (Some (seat_code r)) (Some seatCode))"
  let ?tx = "sql_update
               (\<lambda>r. sql_and (?key r)
                     (sql_and (sql_eq (Some (status r)) (Some held))
                     (sql_and (sql_is_not_null (hold_until r))
                              (sql_lt (hold_until r) (Some now)))))
               (\<lambda>r. r\<lparr>status := available, held_by := None, hold_until := None\<rparr>) (seats d)"
  have tx: "list_all I ?tx"
    using assms(1,3) by (simp add: kept_sql_update kept_by_writes_def)
  have rel: "list_all I
        (sql_update ?key (\<lambda>r. r\<lparr>status := available, held_by := None, hold_until := None\<rparr>) ?tx)"
    using tx assms(1) by (simp add: kept_sql_update kept_by_writes_def)
  have acq: "\<And>t. list_all I
        (sql_update ?key
           (\<lambda>r. r\<lparr>status := held, held_by := Some userId, hold_until := Some t\<rparr>) ?tx)"
    using tx assms(2) by (simp add: kept_sql_update kept_by_hold_def)
  show ?thesis
    using assms(4) tx rel acq
    unfolding toggleSeat_sql_def Let_def
    by (auto split: list.splits if_splits sum.splits)
qed

lemma kept_seedSeats:
  assumes "kept_by_writes I" and "list_all I (seats d)" and "seedSeats showId rows cols d = Inr d'"
  shows "list_all I (seats d')"
  using assms(2,3) unfolding seedSeats_def Let_def
  by (auto simp: kept_createMany [OF assms(1)] split: if_splits)

lemma kept_createShowAction:
  assumes "kept_by_writes I" and "list_all I (seats d)"
  shows "list_all I (seats (snd (createShowAction authed P formData d)))"
proof -
  have seeded: "\<And>showId rows cols created. seats created = seats d \<Longrightarrow>
      list_all I (seats (snd (case seedSeats showId rows cols created of
                                Inl e \<Rightarrow> (Inl e, created)
                              | Inr seeded \<Rightarrow> (Inr (), seeded))))"
  proof -
    fix showId rows cols and created :: db
    assume e: "seats created = seats d"
    show "list_all I (seats (snd (case seedSeats showId rows cols created of
                                Inl e \<Rightarrow> (Inl e, created)
                              | Inr seeded \<Rightarrow> (Inr (), seeded))))"
    proof (cases "seedSeats showId rows cols created")
      case (Inl err)
      then show ?thesis
        using assms(2) e by simp
    next
      case (Inr seeded)
      have "list_all I (seats created)"
        using assms(2) e by simp
      then have "list_all I (seats seeded)"
        using Inr by (rule kept_seedSeats [OF assms(1)])
      then show ?thesis
        using Inr by simp
    qed
  qed
  show ?thesis
    unfolding createShowAction_def Let_def
    by (simp add: assms(2) seeded split: sum.split option.split)
qed

lemma kept_createOrder:
  "list_all I (seats d) \<Longrightarrow> list_all I (seats (snd (createOrder now params d)))"
  unfolding createOrder_def Let_def by simp

lemma kept_approveOrder:
  "kept_by_writes I \<Longrightarrow> list_all I (seats d) \<Longrightarrow>
   list_all I (seats (snd (approveOrder now orderId adminId d)))"
  unfolding approveOrder_def Let_def
  by (auto simp: kept_updateMany kept_by_writes_def split: option.splits)

lemma kept_rejectOrder:
  "kept_by_writes I \<Longrightarrow> list_all I (seats d) \<Longrightarrow>
   list_all I (seats (snd (rejectOrder orderId adminId d)))"
  unfolding rejectOrder_def Let_def
  by (auto simp: kept_updateMany kept_by_writes_def split: option.splits)

lemma kept_or_unchanged:
  assumes "list_all I (seats d)" and "\<And>d'. res = Inr d' \<Longrightarrow> list_all I (seats d')"
  shows "list_all I (seats (or_unchanged d res))"
  using assms by (cases res) (simp_all add: or_unchanged_def)

lemma kept_exec:
  assumes "kept_by_writes I" and "kept_by_op I op" and "list_all I (seats d)"
  shows "list_all I (seats (exec P d op))"
proof (cases op)
  case (OpCreateShow authed formData)
  then show ?thesis
    using assms(1,3) by (simp add: kept_createShowAction)
next
  case (OpSeedSeats showId rows cols)
  have "list_all I (seats (or_unchanged d (seedSeats showId rows cols d)))"
    using assms(3) by (rule kept_or_unchanged) (rule kept_seedSeats [OF assms(1,3)])
  then show ?thesis
    using OpSeedSeats by simp
next
  case (OpToggle now now' showId seatCode userId holdMinutes)
  then have h: "kept_by_hold I userId"
    using assms(2) by simp
  have "list_all I (seats (or_unchanged d
          (map_sum id snd (toggleSeat P now now' showId seatCode userId holdMinutes d))))"
    using assms(3)
  proof (rule kept_or_unchanged)
    fix d'
    assume "map_sum id snd (toggleSeat P now now' showId seatCode userId holdMinutes d) = Inr d'"
    then obtain res where "toggleSeat P now now' showId seatCode userId holdMinutes d = Inr (res, d')"
      by (cases "toggleSeat P now now' showId seatCode userId holdMinutes d") auto
    then show "list_all I (seats d')"
      by (rule kept_toggleSeat [OF assms(1) h assms(3)])
  qed
  then show ?thesis
    using OpToggle by simp
next
  case (OpRelease now showId)
  then show ?thesis
    using assms(1,3) by (simp add: kept_releaseExpiredHolds)
next
  case (OpFreeze showId userId)
  then show ?thesis
    using assms(1,3) by (simp add: kept_freezeHeldSeats)
next
  case (OpCreateOrder now params)
  then show ?thesis
    using assms(3) by (simp add: kept_createOrder)
next
  case (OpApprove now orderId adminId)
  then show ?thesis
    using assms(1,3) by (simp add: kept_approveOrder)
next
  case (OpReject orderId adminId)
  then show ?thesis
    using assms(1,3) by (simp add: kept_rejectOrder)
next
  case (OpSeedSeatsSql showId rows cols)
  have "list_all I (seats (or_unchanged d (seedSeats showId rows cols d)))"
    using assms(3) by (rule kept_or_unchanged) (rule kept_seedSeats [OF assms(1,3)])
  then show ?thesis
    using OpSeedSeatsSql by (simp add: seedSeats_sql_eq)
next
  case (OpToggleSql now showId seatCode userId holdMinutes)
  then have h: "kept_by_hold I userId"
    using assms(2) by simp
  have "list_all I (seats (or_unchanged d
          (map_sum id snd (toggleSeat_sql now showId seatCode userId holdMinutes d))))"
    using assms(3)
  proof (rule kept_or_unchanged)
    fix d'
    assume "map_sum id snd (toggleSeat_sql now showId seatCode userId holdMinutes d) = Inr d'"
    then obtain res where "toggleSeat_sql now showId seatCode userId holdMinutes d = Inr (res, d')"
      by (cases "toggleSeat_sql now showId seatCode userId holdMinutes d") auto
    then show "list_all I (seats d')"
      by (rule kept_toggleSeat_sql [OF assms(1) h assms(3)])
  qed
  then show ?thesis
    using OpToggleSql by simp
next
  case (OpReleaseSql now showId)
  then show ?thesis
    using assms(1,3) by (simp add: kept_releaseExpiredHolds releaseExpiredHolds_sql_eq)
next
  case (OpFreezeSql showId userId)
  then show ?thesis
    using assms(1,3) by (simp add: kept_freezeHeldSeats freezeHeldSeats_sql_eq)
next
  case (OpApproveSql now orderId adminId)
  then show ?thesis
    using assms(1,3) by (simp add: kept_approveOrder approveOrder_sql_eq)
next
  case (OpRejectSql orderId adminId)
  then show ?thesis
    using assms(1,3) by (simp add: kept_rejectOrder rejectOrder_sql_eq)
qed

lemma kept_run:
  assumes "kept_by_writes I" and "\<forall>op \<in> set ops. kept_by_op I op"
  shows "list_all I (seats d) \<Longrightarrow> list_all I (seats (run P ops d))"
  using assms(2) unfolding run_def
  by (induction ops arbitrary: d) (simp_all add: kept_exec [OF assms(1)])

lemma consistent_kept_by_writes: "kept_by_writes seat_consistent"
  by (auto simp: kept_by_writes_def seat_consistent_def seat_defaults_def)

lemma consistent_kept_by_op: "kept_by_op seat_consistent op"
  by (cases op) (simp_all add: kept_by_hold_def seat_consistent_def)

lemma consistent_run:
  "all_seats_consistent d \<Longrightarrow> all_seats_consistent (run P ops d)"
  unfolding all_seats_consistent_def
  by (rule kept_run) (simp_all add: consistent_kept_by_writes consistent_kept_by_op)

lemma named_kept_by_writes: "kept_by_writes holder_named"
  by (simp add: kept_by_writes_def holder_named_def seat_defaults_def)

lemma named_kept_by_op: "named_caller op \<Longrightarrow> kept_by_op holder_named op"
  by (cases op)
     (simp_all add: kept_by_hold_def holder_named_def truthy_def truthy_string_def)

text \<open>
  When every toggle is made for a caller that is not the empty string, every held
  seat that the operations can reach has a holder that is not the empty string.
\<close>

lemma reachable_holders_named:
  assumes "\<forall>op \<in> set ops. named_caller op"
  shows "all_holders_named (run P ops empty_db)"
  unfolding all_holders_named_def
  using assms by (intro kept_run) (simp_all add: named_kept_by_writes named_kept_by_op empty_db_def)

text \<open>
  C1, as the code has it. Whatever sequence of the operations of either layer runs on
  the empty database, every seat row has one of the three statuses and is in
  exactly one of three shapes: available with no holder and no expiry, held with a
  holder, or sold with a buyer and with no holder and no expiry. The buyer column is
  constrained on sold seats only.
\<close>

theorem reachable_seats_consistent:
  "\<forall>r \<in> set (seats (run P ops empty_db)).
     status r \<in> {available, held, sold}
     \<and> seat_consistent r
     \<and> (status r = available) = (held_by r = None \<and> hold_until r = None \<and> status r \<noteq> sold)
     \<and> (status r = held) = (held_by r \<noteq> None)
     \<and> (status r = sold \<longrightarrow> buyer_id r \<noteq> None)"
proof
  fix r
  assume r: "r \<in> set (seats (run P ops empty_db))"
  have "all_seats_consistent empty_db"
    by (simp add: all_seats_consistent_def empty_db_def)
  then have "all_seats_consistent (run P ops empty_db)"
    by (rule consistent_run)
  then have c: "seat_consistent r"
    using r by (simp add: all_seats_consistent_def list_all_iff)
  then show "status r \<in> {available, held, sold}
     \<and> seat_consistent r
     \<and> (status r = available) = (held_by r = None \<and> hold_until r = None \<and> status r \<noteq> sold)
     \<and> (status r = held) = (held_by r \<noteq> None)
     \<and> (status r = sold \<longrightarrow> buyer_id r \<noteq> None)"
    by (cases "status r") (auto simp: seat_consistent_def)
qed

theorem reachable_seats_consistent_witness:
  "map (\<lambda>r. (seat_code r, status r, held_by r, hold_until r, buyer_id r))
       (seats (run example_platform duplicate_rejected_ops empty_db))
     = [(''A1'', available, None, None, Some ''u1''), (''A2'', available, None, None, None)]
   \<and> map seat_consistent (seats (run example_platform duplicate_rejected_ops empty_db)) = [True, True]"
proof -
  have a: "map (\<lambda>r. (seat_code r, status r, held_by r, hold_until r, buyer_id r))
       (seats (run example_platform duplicate_rejected_ops empty_db))
     = [(''A1'', available, None, None, Some ''u1''), (''A2'', available, None, None, None)]"
    by code_simp
  have n: "length (seats (run example_platform duplicate_rejected_ops empty_db)) = 2"
    by code_simp
  have "\<forall>r \<in> set (seats (run example_platform duplicate_rejected_ops empty_db)). seat_consistent r = True"
    using reachable_seats_consistent [of example_platform duplicate_rejected_ops] by simp
  then have "map seat_consistent (seats (run example_platform duplicate_rejected_ops empty_db))
      = map (\<lambda>r. True) (seats (run example_platform duplicate_rejected_ops empty_db))"
    by (intro map_cong) simp_all
  then have "map seat_consistent (seats (run example_platform duplicate_rejected_ops empty_db))
      = replicate 2 True"
    by (simp add: map_replicate_const n)
  then show ?thesis
    using a by (simp add: numeral_2_eq_2)
qed

text \<open>
  The invariant as the specification words it fails on a reachable database: after
  the duplicate order on the sold seat A1 is rejected, A1 is available and has a
  buyer.
\<close>

theorem seat_invariant_counterexample:
  "map (\<lambda>r. (seat_code r, status r, held_by r, buyer_id r))
       (seats (run example_platform duplicate_rejected_ops empty_db))
     = [(''A1'', available, None, Some ''u1''), (''A2'', available, None, None)]
   \<and> map seat_invariant (seats (run example_platform duplicate_rejected_ops empty_db)) = [False, True]"
  by code_simp


section \<open>Seat seeding\<close>

lemma digit_char_inj:
  assumes "i < 10" and "j < 10" and "digit_char i = digit_char j"
  shows "i = j"
proof -
  have "distinct ''0123456789''"
    by simp
  then show ?thesis
    using assms nth_eq_iff_index_eq [of "''0123456789''" i j]
    by (simp add: digit_char_def)
qed

lemma dec_string_small: "n < 10 \<Longrightarrow> dec_string n = [digit_char n]"
  by (subst dec_string.simps) simp

lemma dec_string_large:
  "\<not> n < 10 \<Longrightarrow> dec_string n = dec_string (n div 10) @ [digit_char (n mod 10)]"
  by (subst dec_string.simps) simp

lemma dec_string_nonempty: "dec_string n \<noteq> []"
  by (cases "n < 10") (simp_all add: dec_string_small dec_string_large)

lemma dec_string_inj: "dec_string n = dec_string m \<Longrightarrow> n = m"
proof (induction n arbitrary: m rule: dec_string.induct)
  case (1 n)
  show ?case
  proof (cases "n < 10")
    case True
    note small_n = this
    show ?thesis
    proof (cases "m < 10")
      case True
      then show ?thesis
        using "1.prems" small_n by (simp add: dec_string_small digit_char_inj)
    next
      case False
      then have "[digit_char n] = dec_string (m div 10) @ [digit_char (m mod 10)]"
        using "1.prems" small_n by (simp add: dec_string_small dec_string_large)
      then show ?thesis
        using dec_string_nonempty [of "m div 10"] by simp
    qed
  next
    case False
    note large_n = this
    show ?thesis
    proof (cases "m < 10")
      case True
      then have "dec_string (n div 10) @ [digit_char (n mod 10)] = [digit_char m]"
        using "1.prems" large_n by (simp add: dec_string_small dec_string_large)
      then show ?thesis
        using dec_string_nonempty [of "n div 10"] by simp
    next
      case False
      then have e: "dec_string (n div 10) = dec_string (m div 10)"
        and l: "digit_char (n mod 10) = digit_char (m mod 10)"
        using "1.prems" large_n by (simp_all add: dec_string_large)
      have "n div 10 = m div 10"
        using "1.IH" [OF large_n e] .
      moreover have "n mod 10 = m mod 10"
        using l by (intro digit_char_inj) simp_all
      ultimately show ?thesis
        by (metis div_mult_mod_eq)
    qed
  qed
qed

lemma number_string_inj:
  "0 \<le> i \<Longrightarrow> 0 \<le> j \<Longrightarrow> number_string i = number_string j \<Longrightarrow> i = j"
  using dec_string_inj [of "nat i" "nat j"] by (simp add: number_string_def)

lemma distinct_row_codes: "distinct (map (\<lambda>col. letter # number_string col) [1..cols])"
proof -
  have "\<And>x y. 1 \<le> x \<Longrightarrow> 1 \<le> y \<Longrightarrow> number_string x = number_string y \<Longrightarrow> x = y"
    by (rule number_string_inj) simp_all
  then show ?thesis
    by (auto simp: distinct_map inj_on_def)
qed

lemma distinct_grid_codes:
  "distinct letters \<Longrightarrow>
   distinct (concat (map (\<lambda>letter. map (\<lambda>col. letter # number_string col) [1..cols]) letters))"
proof (induction letters)
  case Nil
  show ?case by simp
next
  case (Cons l letters)
  then show ?case
    using distinct_row_codes [of l cols] by auto
qed

lemma length_grid_codes:
  "length (concat (map (\<lambda>letter. map (f letter) cs) letters)) = length letters * length cs"
  by (induction letters) simp_all

lemma length_alphabet: "length alphabet = 26"
  by (simp add: alphabet_def)

lemma letters_take: "0 \<le> rows \<Longrightarrow> js_slice0 alphabet rows = take (nat (min rows 26)) alphabet"
  by (simp add: js_slice0_def Let_def length_alphabet)

lemma length_letters: "0 \<le> rows \<Longrightarrow> length (js_slice0 alphabet rows) = nat (min rows 26)"
  by (auto simp: letters_take length_alphabet min_def)

lemma distinct_seat_codes: "distinct (seat_codes rows cols)"
proof -
  have "distinct alphabet"
    by (simp add: alphabet_def)
  then have "distinct (js_slice0 alphabet rows)"
    by (simp add: js_slice0_def Let_def)
  then show ?thesis
    unfolding seat_codes_def by (rule distinct_grid_codes)
qed

lemma length_seat_codes:
  "0 \<le> rows \<Longrightarrow> 0 \<le> cols \<Longrightarrow> length (seat_codes rows cols) = nat (min rows 26) * nat cols"
  by (simp add: seat_codes_def length_grid_codes length_letters)

lemma set_seat_codes:
  "0 \<le> rows \<Longrightarrow>
   set (seat_codes rows cols)
   = {letter # number_string col | letter col.
        letter \<in> set (take (nat (min rows 26)) alphabet) \<and> 1 \<le> col \<and> col \<le> cols}"
  by (auto simp: seat_codes_def letters_take)

lemma seat_createMany_fresh:
  assumes "distinct codes"
    and "\<forall>r \<in> set rs. show_id r = showId \<longrightarrow> seat_code r \<notin> set codes"
  shows "seat_createMany (map (\<lambda>code. (showId, code)) codes) rs
         = rs @ map (seat_defaults showId) codes"
  using assms
proof (induction codes arbitrary: rs)
  case Nil
  show ?case by simp
next
  case (Cons c codes)
  have none: "seat_findUnique showId c rs = None"
    using Cons.prems(2) by (auto simp: seat_findUnique_def find_None_iff)
  have "\<forall>r \<in> set (rs @ [seat_defaults showId c]). show_id r = showId \<longrightarrow> seat_code r \<notin> set codes"
    using Cons.prems by (auto simp: seat_defaults_def)
  then have "seat_createMany (map (\<lambda>code. (showId, code)) codes) (rs @ [seat_defaults showId c])
             = (rs @ [seat_defaults showId c]) @ map (seat_defaults showId) codes"
    using Cons.prems(1) by (intro Cons.IH) simp_all
  then show ?case
    by (simp add: none)
qed

lemma new_show_has_no_seats:
  assumes "seats_reference_shows d" and "shows_below_seq d" and "r \<in> set (seats d)"
  shows "show_id r \<noteq> shows_id_seq d + 1"
proof
  assume e: "show_id r = shows_id_seq d + 1"
  have "show_exists (show_id r) d"
    using assms(1,3) by (simp add: seats_reference_shows_def)
  then obtain s where "s \<in> set (shows_tbl d)" and "sh_id s = show_id r"
    by (auto simp: show_exists_def find_None_iff)
  then show False
    using assms(2) e by (auto simp: shows_below_seq_def)
qed

text \<open>
  C9, as the code has it. On a database whose seats reference existing shows and whose
  show identifiers are below the sequence, a form that validation accepts (rows and
  cols at least 1, price at least 0, a title that is not blank, a date that parses)
  and whose rows, cols and price are whole numbers of the range of an INTEGER
  column, with a start time that is stored and the next identifier within that
  range, makes createShowAction append one show row with the next identifier and
  seed, for that show, one available seat per code: the codes are distinct, they are
  the row letter followed by the decimal column number for the first min(rows, 26)
  letters of A..Z and the columns 1..cols, so min(rows, 26) * cols seats are
  created, which is rows * cols when rows is at most 26. Nothing else changes. The
  SQL seeding is the same function.
\<close>

theorem createShowAction_seeds:
  assumes "seats_reference_shows d" and "shows_below_seq d"
    and "f_rows formData = Entry (Finite (of_int rows))" and "1 \<le> rows" and "int32 rows"
    and "f_cols formData = Entry (Finite (of_int cols))" and "1 \<le> cols" and "int32 cols"
    and "f_price formData = Entry (Finite (of_int price))" and "0 \<le> price" and "int32 price"
    and "f_title formData = Some title" and "trim P title \<noteq> []"
    and "f_startsAt formData = Some startsAtRaw" and "startsAtRaw \<noteq> []"
    and "parseDate P startsAtRaw = Some startsAt" and "stores_date P startsAt"
    and "int32 (shows_id_seq d + 1)"
  shows "createShowAction True P formData d
           = (Inr (),
              d\<lparr>shows_tbl := shows_tbl d @
                       [\<lparr>sh_id = shows_id_seq d + 1, sh_title = trim P title,
                         sh_starts_at = startsAt, sh_rows = rows, sh_cols = cols,
                         sh_price = price\<rparr>],
                    shows_id_seq := shows_id_seq d + 1,
                    seats := seats d @
                       map (\<lambda>code. \<lparr>show_id = shows_id_seq d + 1, seat_code = code,
                                    status = available, held_by = None, hold_until = None,
                                    buyer_id = None\<rparr>) (seat_codes rows cols)\<rparr>)
         \<and> count_seats (shows_id_seq d + 1) (snd (createShowAction True P formData d))
           = nat (min rows 26) * nat cols
         \<and> (rows \<le> 26 \<longrightarrow> length (seat_codes rows cols) = nat rows * nat cols)
         \<and> length (seat_codes rows cols) = nat (min rows 26) * nat cols
         \<and> distinct (seat_codes rows cols)
         \<and> set (seat_codes rows cols)
           = {letter # number_string col | letter col.
                letter \<in> set (take (nat (min rows 26)) alphabet) \<and> 1 \<le> col \<and> col \<le> cols}
         \<and> seedSeats_sql (shows_id_seq d + 1) rows cols d = seedSeats (shows_id_seq d + 1) rows cols d"
proof -
  let ?new = "shows_id_seq d + 1"
  let ?row = "\<lparr>sh_id = ?new, sh_title = trim P title, sh_starts_at = startsAt,
               sh_rows = rows, sh_cols = cols, sh_price = price\<rparr>"
  let ?d0 = "d\<lparr>shows_tbl := shows_tbl d @ [?row], shows_id_seq := ?new\<rparr>"
  have len: "length (seat_codes rows cols) = nat (min rows 26) * nat cols"
    using assms(4,7) by (simp add: length_seat_codes)
  have pos: "0 < length (seat_codes rows cols)"
    using assms(4,7) by (simp add: len)
  have "?row \<in> set (shows_tbl ?d0) \<and> sh_id ?row = ?new"
    by simp
  then have ex: "show_exists ?new ?d0"
    unfolding show_exists_def find_None_iff by blast
  have fresh: "\<forall>r \<in> set (seats d). show_id r = ?new \<longrightarrow> seat_code r \<notin> set (seat_codes rows cols)"
    using new_show_has_no_seats [OF assms(1,2)] by blast
  have seed: "seedSeats ?new rows cols ?d0
      = Inr (?d0\<lparr>seats := seats d @ map (seat_defaults ?new) (seat_codes rows cols)\<rparr>)"
    using pos ex seat_createMany_fresh [OF distinct_seat_codes fresh]
    by (simp add: seedSeats_def)
  have pr: "parseNumberField (f_rows formData) (Some 1) = Inr (of_int rows)"
    and pc: "parseNumberField (f_cols formData) (Some 1) = Inr (of_int cols)"
    and pp: "parseNumberField (f_price formData) (Some 0) = Inr (of_int price)"
    using assms(3,4,6,7,9,10) by (simp_all add: parseNumberField_Inr)
  have act: "createShowAction True P formData d
      = (case seedSeats ?new rows cols ?d0 of
           Inl e \<Rightarrow> (Inl e, ?d0)
         | Inr seeded \<Rightarrow> (Inr (), seeded))"
    using assms(5,8,11-18)
    by (simp add: createShowAction_def pr pc pp is_int32_of_int Let_def)
  have defaults: "seat_defaults ?new = (\<lambda>code. \<lparr>show_id = ?new, seat_code = code,
                                    status = available, held_by = None, hold_until = None,
                                    buyer_id = None\<rparr>)"
    by (simp add: seat_defaults_def fun_eq_iff)
  have res: "createShowAction True P formData d
           = (Inr (),
              d\<lparr>shows_tbl := shows_tbl d @ [?row], shows_id_seq := ?new,
                    seats := seats d @
                       map (\<lambda>code. \<lparr>show_id = ?new, seat_code = code,
                                    status = available, held_by = None, hold_until = None,
                                    buyer_id = None\<rparr>) (seat_codes rows cols)\<rparr>)"
    unfolding act seed defaults by simp
  have old: "filter (\<lambda>r. show_id r = ?new) (seats d) = []"
    using new_show_has_no_seats [OF assms(1,2)] by (auto simp: filter_empty_conv)
  have cnt: "count_seats ?new (snd (createShowAction True P formData d))
           = nat (min rows 26) * nat cols"
    unfolding res by (simp add: count_seats_def old len)
  have le26: "rows \<le> 26 \<longrightarrow> length (seat_codes rows cols) = nat rows * nat cols"
    by (simp add: len min_def)
  have dist: "distinct (seat_codes rows cols)"
    by (rule distinct_seat_codes)
  have sets: "set (seat_codes rows cols)
           = {letter # number_string col | letter col.
                letter \<in> set (take (nat (min rows 26)) alphabet) \<and> 1 \<le> col \<and> col \<le> cols}"
    using assms(4) by (intro set_seat_codes) simp
  have sql: "seedSeats_sql ?new rows cols d = seedSeats ?new rows cols d"
    by (rule seedSeats_sql_eq)
  show ?thesis
    by (intro conjI) (fact res, fact cnt, fact le26, fact len, fact dist, fact sets, fact sql)
qed

theorem createShowAction_seeds_witness:
  "seats_reference_shows small_show_db \<and> shows_below_seq small_show_db
   \<and> shows_id_seq small_show_db = 1
   \<and> trim example_platform ''Gala'' \<noteq> []
   \<and> parseDate example_platform ''2030-01-01T20:00'' = Some 1893528000000
   \<and> stores_date example_platform 1893528000000
   \<and> int32 2 \<and> int32 3 \<and> int32 250000
   \<and> count_seats 2 (snd (createShowAction True example_platform (example_form 2 3) small_show_db))
     = 6
   \<and> seat_codes 2 3 = [''A1'', ''A2'', ''A3'', ''B1'', ''B2'', ''B3'']
   \<and> distinct (seat_codes 2 3)"
proof -
  have h1: "seats_reference_shows small_show_db"
    unfolding small_show_db_def by code_simp
  have h2: "shows_below_seq small_show_db"
    unfolding small_show_db_def by code_simp
  have q: "shows_id_seq small_show_db = 1"
    unfolding small_show_db_def by code_simp
  have c: "seat_codes 2 3 = [''A1'', ''A2'', ''A3'', ''B1'', ''B2'', ''B3'']"
    by code_simp
  have t: "trim example_platform ''Gala'' \<noteq> []"
    by (simp add: example_platform_def example_trim_def)
  have p: "parseDate example_platform ''2030-01-01T20:00'' = Some 1893528000000"
    by (simp add: example_platform_def example_date_def)
  have s: "stores_date example_platform 1893528000000"
    by (simp add: example_platform_def)
  have f: "f_rows (example_form 2 3) = Entry (Finite (of_int 2))"
    "f_cols (example_form 2 3) = Entry (Finite (of_int 3))"
    "f_price (example_form 2 3) = Entry (Finite (of_int 250000))"
    "f_title (example_form 2 3) = Some ''Gala''"
    "f_startsAt (example_form 2 3) = Some ''2030-01-01T20:00''"
    by (simp_all add: example_form_def)
  have n: "''2030-01-01T20:00'' \<noteq> []" "(1::int) \<le> 2" "(1::int) \<le> 3" "(0::int) \<le> 250000"
    "int32 2" "int32 3" "int32 250000" "int32 (shows_id_seq small_show_db + 1)"
    by (simp_all add: int32_def q)
  note T = createShowAction_seeds
    [OF h1 h2 f(1) n(2) n(5) f(2) n(3) n(6) f(3) n(4) n(7) f(4) t f(5) n(1) p s n(8)]
  have "count_seats (shows_id_seq small_show_db + 1)
          (snd (createShowAction True example_platform (example_form 2 3) small_show_db))
        = nat (min 2 26) * nat 3"
    using T by blast
  then have k: "count_seats 2
          (snd (createShowAction True example_platform (example_form 2 3) small_show_db)) = 6"
    by (simp add: q)
  have i: "distinct (seat_codes 2 3)"
    using T by blast
  show ?thesis
    using h1 h2 q t p s n(5,6,7) c k i by blast
qed

text \<open>
  The claim as worded fails above 26 rows: the form accepts 27 rows and 1 column, the
  show row records 27 rows, and 26 seats are seeded, not 27. It also fails for a
  number of rows that validation accepts and an INTEGER column does not hold: with
  one row and a half nothing is created.
\<close>

theorem createShowAction_rows_counterexample:
  "parseNumberField (Entry (Finite 27)) (Some 1) = Inr 27
   \<and> map (\<lambda>r. (sh_id r, sh_rows r, sh_cols r))
        (shows_tbl (snd (createShowAction True example_platform (example_form 27 1) empty_db)))
     = [(1, 27, 1)]
   \<and> count_seats 1 (snd (createShowAction True example_platform (example_form 27 1) empty_db)) = 26
   \<and> length (seats (snd (createShowAction True example_platform (example_form 27 1) empty_db))) = 26
   \<and> parseNumberField (Entry (Finite (3 / 2))) (Some 1) = Inr (3 / 2)
   \<and> createShowAction True example_platform (example_form (3 / 2) 1) empty_db
     = (Inl InvalidInteger, empty_db)"
  by code_simp

end
